theory Spec2Isabelle
  imports Main "HOL-Library.AList"
begin

section \<open>Identifiers, values and errors\<close>

text \<open>
  \<^verbatim>\<open>Bindable = string | symbol | Function | object\<close>. Strings compare by content; symbols,
  functions and objects compare by identity, which is the number they carry. The string
  of a symbol is its description, of a function its \<^verbatim>\<open>name\<close>, of an object the name of its
  constructor; errors.ts prints an identifier with them.
\<close>

datatype bindable =
    BStr string
  | BSym nat string
  | BFun nat string
  | BObj nat string

text \<open>
  The \<^verbatim>\<open>dispose\<close> method of an object, seen from the container that calls it: it returns or
  it throws. A method that calls back into the container is not modelled.
\<close>

datatype dispose_method = Returns | Throws string

text \<open>
  The values a factory can produce (\<^verbatim>\<open>any\<close>). \<open>VObj r d\<close> is the object with identity \<open>r\<close>;
  \<open>d\<close> is its \<^verbatim>\<open>dispose\<close> method, if it has one. \<open>VProxy r a\<close> is a forwarding proxy for \<open>a\<close>, as
  \<^verbatim>\<open>Container.resolve\<close> of container.ts returns on a cycle: each \<^verbatim>\<open>new Proxy\<close> is an object of
  its own, with identity \<open>r\<close>. \<open>VRejected m\<close> is the rejected promise that \<^verbatim>\<open>applyMiddleware\<close>
  returns.
\<close>

datatype val =
    VUndefined
  | VNull
  | VBool bool
  | VNum int
  | VStr string
  | VObj nat "dispose_method option"
  | VProxy nat bindable
  | VRejected string

fun falsy :: "val \<Rightarrow> bool" where
  "falsy VUndefined = True"
| "falsy VNull = True"
| "falsy (VBool b) = (\<not> b)"
| "falsy (VNum n) = (n = 0)"
| "falsy (VStr s) = (s = [])"
| "falsy (VObj r d) = False"
| "falsy (VProxy r a) = False"
| "falsy (VRejected m) = False"

text \<open>The only falsy identifier is the empty string.\<close>

definition falsy_bindable :: "bindable \<Rightarrow> bool" where
  "falsy_bindable a = (a = BStr [])"

text \<open>
  The error classes of errors.ts that the containers raise, \<open>ZodError\<close> of the schema
  library, and \<open>Thrown\<close> for any other exception of a factory or of a \<^verbatim>\<open>dispose\<close> method.
  \<open>CircularDependencyError\<close> carries the chain of identifiers; the source hands the
  constructor their \<^verbatim>\<open>String\<close> images.
  \<open>InvalidSchemaError a m\<close> is the error whose message is
  \<^verbatim>\<open>`Invalid schema for ${String(a)}: ${m}`\<close>.
\<close>

datatype error =
    CircularDependencyError "bindable list"
  | UnresolvedDependencyError bindable
  | InvalidSchemaError bindable string
  | InvalidTagError string
  | ZodError string
  | Thrown string

section \<open>The state a resolution works on\<close>

text \<open>
  A factory receives the container and may call \<^verbatim>\<open>resolve\<close> on it, so the fields of a
  container that change while a resolution runs are kept in a store, indexed by the
  container's identity: \<^verbatim>\<open>instances\<close>, the \<^verbatim>\<open>instance\<close> field of each binding (the only
  field of a binding that is ever assigned) and \<^verbatim>\<open>resolvingStack\<close>. The store also counts
  the objects allocated by \<^verbatim>\<open>new\<close>, a forwarding proxy being one of them, and records, in
  order, the objects whose \<^verbatim>\<open>dispose\<close> method has been called. A factory or a giver can do
  to the store whatever it likes; it does not register, alias, tag or dispose while it
  runs, so the tables of \<open>container\<close> below stay as they are during a resolution.
\<close>

record cstate =
  instances :: "bindable \<rightharpoonup> val"
  binding_instance :: "bindable \<rightharpoonup> val"
  resolvingStack :: "bindable list"

record store =
  conts :: "nat \<Rightarrow> cstate"
  allocated :: nat
  released :: "nat list"

text \<open>
  A computation either does not return (\<open>None\<close>, the fuel ran out), or throws (\<open>Inl\<close>) or
  returns (\<open>Inr\<close>), in both cases with the store it leaves.
\<close>

type_synonym 'a comp = "store \<Rightarrow> ((error + 'a) \<times> store) option"

definition return_c :: "'a \<Rightarrow> 'a comp" where
  "return_c a s = Some (Inr a, s)"

definition bind_c :: "'a comp \<Rightarrow> ('a \<Rightarrow> 'b comp) \<Rightarrow> 'b comp" where
  "bind_c m f s =
     (case m s of
        None \<Rightarrow> None
      | Some (Inl e, s') \<Rightarrow> Some (Inl e, s')
      | Some (Inr a, s') \<Rightarrow> f a s')"

text \<open>
  \<^verbatim>\<open>c.resolve(abstract, context?)\<close> as a factory sees it, and a factory
  \<^verbatim>\<open>(c, context?) => ...\<close>: it is given the identity of \<^verbatim>\<open>c\<close> and the \<^verbatim>\<open>resolve\<close> method of \<^verbatim>\<open>c\<close>.
\<close>

type_synonym resolver = "bindable \<Rightarrow> bindable option \<Rightarrow> val comp"

type_synonym factory = "nat \<Rightarrow> resolver \<Rightarrow> bindable option \<Rightarrow> val comp"

text \<open>
  \<^verbatim>\<open>Middleware = (next: () => any) => any\<close>. The closure variable \<^verbatim>\<open>index\<close> of
  \<^verbatim>\<open>applyMiddleware\<close> is threaded through \<^verbatim>\<open>next\<close>; a middleware returns or throws.
\<close>

type_synonym middleware = "(int \<Rightarrow> val \<times> int) \<Rightarrow> int \<Rightarrow> (string + val) \<times> int"

datatype lifetime = Singleton | Transient | Scoped

record binding =
  factory :: factory
  lifetime :: lifetime
  resolver :: factory

text \<open>\<^verbatim>\<open>give: Function | any\<close>: a function is called with the container, a value is used as it is.\<close>

datatype giver = GiveFn "nat \<Rightarrow> resolver \<Rightarrow> val comp" | GiveVal val

record contextual =
  when_c :: bindable
  need :: bindable
  give :: giver

text \<open>
  The tables of a container that only registration changes. \<^verbatim>\<open>bindings\<close> is a \<^verbatim>\<open>Map\<close> that
  \<^verbatim>\<open>dispose\<close> iterates, so it keeps insertion order.
\<close>

record container =
  bindings :: "(bindable \<times> binding) list"
  aliases :: "bindable \<rightharpoonup> bindable"
  tags :: "string \<rightharpoonup> bindable list"
  contextualBindings :: "bindable \<rightharpoonup> contextual list"
  parent :: "nat option"
  children :: "nat list"
  middlewares :: "middleware list"

text \<open>The two classes with this \<^verbatim>\<open>resolve\<close>: \<^verbatim>\<open>Container\<close> of container.ts and \<^verbatim>\<open>DIContainer\<close>.\<close>

datatype impl = ContainerTs | DIContainer

section \<open>Resolution\<close>

definition getAlias :: "container \<Rightarrow> bindable \<Rightarrow> bindable" where
  "getAlias c abstract =
     (case abstract of
        BFun i n \<Rightarrow> abstract
      | BObj i n \<Rightarrow> abstract
      | _ \<Rightarrow> (case aliases c abstract of
                None \<Rightarrow> abstract
              | Some t \<Rightarrow> if falsy_bindable t then abstract else t))"

definition push :: "nat \<Rightarrow> bindable \<Rightarrow> store \<Rightarrow> store" where
  "push cid a s =
     s\<lparr>conts := (conts s)(cid := (conts s cid)
          \<lparr>resolvingStack := resolvingStack (conts s cid) @ [a]\<rparr>)\<rparr>"

definition pop :: "nat \<Rightarrow> store \<Rightarrow> store" where
  "pop cid s =
     s\<lparr>conts := (conts s)(cid := (conts s cid)
          \<lparr>resolvingStack := butlast (resolvingStack (conts s cid))\<rparr>)\<rparr>"

text \<open>\<^verbatim>\<open>try { ... } finally { this.resolvingStack.pop(); }\<close>\<close>

definition finally_pop :: "nat \<Rightarrow> ((error + 'a) \<times> store) option \<Rightarrow> ((error + 'a) \<times> store) option" where
  "finally_pop cid r = map_option (\<lambda>(x, s). (x, pop cid s)) r"

text \<open>
  \<^verbatim>\<open>applyMiddleware\<close>: \<open>dispatch fns i\<close> is \<^verbatim>\<open>dispatch(i)\<close> with \<open>fns\<close> the middlewares from
  position \<open>i\<close> on; at the end of the list \<^verbatim>\<open>fn\<close> is \<^verbatim>\<open>() => instance\<close>.
\<close>

primrec dispatch :: "middleware list \<Rightarrow> nat \<Rightarrow> val \<Rightarrow> int \<Rightarrow> val \<times> int" where
  "dispatch [] i inst index =
     (if int i \<le> index then (VRejected ''next() called multiple times'', index)
      else (inst, int i))"
| "dispatch (fn # fns) i inst index =
     (if int i \<le> index then (VRejected ''next() called multiple times'', index)
      else (case fn (dispatch fns (Suc i) inst) (int i) of
              (Inl err, index') \<Rightarrow> (VRejected err, index')
            | (Inr v, index') \<Rightarrow> (v, index')))"

definition applyMiddleware :: "middleware list \<Rightarrow> val \<Rightarrow> val" where
  "applyMiddleware fns inst = fst (dispatch fns 0 inst (- 1))"

text \<open>\<^verbatim>\<open>(this.contextualBindings.get(context) || []).find(b => b.need === abstract)\<close>\<close>

definition find_contextual :: "container \<Rightarrow> bindable \<Rightarrow> bindable \<Rightarrow> contextual option" where
  "find_contextual c context abstract =
     List.find (\<lambda>b. need b = abstract)
       (case contextualBindings c context of None \<Rightarrow> [] | Some bs \<Rightarrow> bs)"

text \<open>\<^verbatim>\<open>typeof give === 'function' ? give(this) : give\<close>\<close>

definition run_giver :: "giver \<Rightarrow> nat \<Rightarrow> resolver \<Rightarrow> val comp" where
  "run_giver g cid self = (case g of GiveFn f \<Rightarrow> f cid self | GiveVal v \<Rightarrow> return_c v)"

text \<open>
  The value of \<^verbatim>\<open>instance\<close> after the block \<^verbatim>\<open>if (context) { ... }\<close>: \<^verbatim>\<open>undefined\<close> unless a
  contextual binding of a truthy context gives one.
\<close>

definition contextual_instance ::
  "container \<Rightarrow> nat \<Rightarrow> resolver \<Rightarrow> bindable \<Rightarrow> bindable option \<Rightarrow> val comp" where
  "contextual_instance c cid self abstract context =
     (case context of
        None \<Rightarrow> return_c VUndefined
      | Some ctx \<Rightarrow>
          if falsy_bindable ctx then return_c VUndefined
          else (case find_contextual c ctx abstract of
                  None \<Rightarrow> return_c VUndefined
                | Some cb \<Rightarrow> run_giver (give cb) cid self))"

text \<open>\<^verbatim>\<open>binding.instance = instance; this.instances.set(abstract, instance);\<close>\<close>

definition cache_singleton :: "nat \<Rightarrow> bindable \<Rightarrow> val \<Rightarrow> store \<Rightarrow> store" where
  "cache_singleton cid abstract v s =
     s\<lparr>conts := (conts s)(cid := (conts s cid)
          \<lparr>instances := (instances (conts s cid))(abstract \<mapsto> v),
           binding_instance := (binding_instance (conts s cid))(abstract \<mapsto> v)\<rparr>)\<rparr>"

text \<open>
  The lifetime dispatch of \<^verbatim>\<open>resolve\<close>, from \<^verbatim>\<open>let instance;\<close> to the value handed to
  \<^verbatim>\<open>applyMiddleware\<close>; \<open>self\<close> is \<^verbatim>\<open>this.resolve\<close>. Only \<^verbatim>\<open>DIContainer\<close> has the branch for
  \<^verbatim>\<open>Lifetime.Scoped\<close>; \<^verbatim>\<open>this.build(binding, context)\<close> is \<^verbatim>\<open>binding.resolver(this, context)\<close>.
\<close>

definition singleton_instance :: "binding \<Rightarrow> val option \<Rightarrow> val option" where
  "singleton_instance b bi =
     (case bi of
        None \<Rightarrow> None
      | Some v \<Rightarrow> if lifetime b = Singleton \<and> \<not> falsy v then Some v else None)"

definition lifetime_dispatch ::
  "impl \<Rightarrow> container \<Rightarrow> nat \<Rightarrow> resolver \<Rightarrow> binding \<Rightarrow> bindable \<Rightarrow> bindable option \<Rightarrow> val comp" where
  "lifetime_dispatch I c cid self b abstract context s =
     (case singleton_instance b (binding_instance (conts s cid) abstract) of
        Some v \<Rightarrow> Some (Inr v, s)
      | None \<Rightarrow>
          if I = DIContainer \<and> lifetime b = Scoped then resolver b cid self None s
          else
            bind_c (contextual_instance c cid self abstract context)
              (\<lambda>ci. bind_c (if falsy ci then resolver b cid self context else return_c ci)
                 (\<lambda>inst s'. Some (Inr inst,
                    if lifetime b = Singleton then cache_singleton cid abstract inst s' else s')))
              s)"

text \<open>
  \<^verbatim>\<open>resolve(abstract, context?)\<close> of the container \<open>cid\<close>, the tables being \<open>cf\<close>. The first
  argument tells the class, the second is the fuel: every call of \<^verbatim>\<open>resolve\<close> made by a
  factory, a giver or the delegation to the parent takes one unit.
\<close>

fun resolve :: "impl \<Rightarrow> nat \<Rightarrow> (nat \<Rightarrow> container) \<Rightarrow> nat \<Rightarrow> bindable \<Rightarrow> bindable option \<Rightarrow> val comp" where
  "resolve I 0 cf cid originalAbstract context s = None"
| "resolve I (Suc n) cf cid originalAbstract context s =
     (let c = cf cid;
          abstract = getAlias c originalAbstract
      in case instances (conts s cid) abstract of
           Some v \<Rightarrow> Some (Inr v, s)
         | None \<Rightarrow>
             if abstract \<in> set (resolvingStack (conts s cid)) then
               (case I of
                  DIContainer \<Rightarrow>
                    Some (Inl (CircularDependencyError (resolvingStack (conts s cid) @ [abstract])), s)
                | ContainerTs \<Rightarrow>
                    Some (Inr (VProxy (allocated s) abstract), s\<lparr>allocated := Suc (allocated s)\<rparr>))
             else
               finally_pop cid
                 (case map_of (bindings c) abstract of
                    None \<Rightarrow>
                      (case parent c of
                         Some p \<Rightarrow> resolve I n cf p originalAbstract None (push cid abstract s)
                       | None \<Rightarrow>
                           Some (Inl (UnresolvedDependencyError originalAbstract), push cid abstract s))
                  | Some b \<Rightarrow>
                      bind_c (lifetime_dispatch I c cid (resolve I n cf cid) b abstract context)
                        (\<lambda>inst. return_c (applyMiddleware (middlewares c) inst))
                        (push cid abstract s)))"

declare resolve.simps [simp del]

text \<open>
  \<^verbatim>\<open>resolveWithContext(abstract, context)\<close>, the private method of both classes that
  \<^verbatim>\<open>createInstance\<close> resolves a constructor parameter with: it returns what the contextual
  binding gives whenever there is one.
\<close>

definition resolveWithContext ::
  "impl \<Rightarrow> nat \<Rightarrow> (nat \<Rightarrow> container) \<Rightarrow> nat \<Rightarrow> bindable \<Rightarrow> bindable \<Rightarrow> val comp" where
  "resolveWithContext I n cf cid abstract context =
     (case find_contextual (cf cid) context abstract of
        Some binding \<Rightarrow> run_giver (give binding) cid (resolve I n cf cid)
      | None \<Rightarrow> resolve I n cf cid abstract None)"


section \<open>Registration\<close>

text \<open>
  A world is the tables of every container, the store, and the identity the next
  \<^verbatim>\<open>new Container()\<close> gets.
\<close>

record world =
  cfg :: "nat \<Rightarrow> container"
  st :: store
  next_cid :: nat

definition empty_container :: container where
  "empty_container =
     \<lparr>bindings = [], aliases = Map.empty, tags = Map.empty, contextualBindings = Map.empty,
      parent = None, children = [], middlewares = []\<rparr>"

definition empty_cstate :: cstate where
  "empty_cstate = \<lparr>instances = Map.empty, binding_instance = Map.empty, resolvingStack = []\<rparr>"

text \<open>\<^verbatim>\<open>new Container()\<close> as the only container: it has identity 0.\<close>

definition new_world :: world where
  "new_world =
     \<lparr>cfg = (\<lambda>i. empty_container),
      st = \<lparr>conts = (\<lambda>i. empty_cstate), allocated = 0, released = []\<rparr>,
      next_cid = 1\<rparr>"

text \<open>The binding records that \<^verbatim>\<open>bind\<close>, \<^verbatim>\<open>singleton\<close>, \<^verbatim>\<open>transient\<close> and \<^verbatim>\<open>scoped\<close> store.\<close>

definition bind_binding :: "factory \<Rightarrow> binding" where
  "bind_binding f =
     \<lparr>factory = f, lifetime = Transient, resolver = (\<lambda>container self context. f container self None)\<rparr>"

definition singleton_binding :: "factory \<Rightarrow> binding" where
  "singleton_binding f = \<lparr>factory = f, lifetime = Singleton, resolver = f\<rparr>"

definition transient_binding :: "factory \<Rightarrow> binding" where
  "transient_binding f = \<lparr>factory = f, lifetime = Transient, resolver = f\<rparr>"

definition scoped_resolver :: "bindable \<Rightarrow> factory \<Rightarrow> factory" where
  "scoped_resolver abstract f container self context s =
     (case instances (conts s container) abstract of
        Some v \<Rightarrow> Some (Inr v, s)
      | None \<Rightarrow>
          bind_c (f container self None)
            (\<lambda>inst s'. Some (Inr inst,
               s'\<lparr>conts := (conts s')(container := (conts s' container)
                    \<lparr>instances := (instances (conts s' container))(abstract \<mapsto> inst)\<rparr>)\<rparr>))
            s)"

definition scoped_binding :: "bindable \<Rightarrow> factory \<Rightarrow> binding" where
  "scoped_binding abstract f =
     \<lparr>factory = f, lifetime = Scoped, resolver = scoped_resolver abstract f\<rparr>"

text \<open>
  \<^verbatim>\<open>this.bindings.set(abstract, {...})\<close>: the new record has no \<^verbatim>\<open>instance\<close>, so the
  cached instance of the binding it replaces is dropped.
\<close>

definition set_binding :: "nat \<Rightarrow> bindable \<Rightarrow> binding \<Rightarrow> world \<Rightarrow> world" where
  "set_binding cid abstract b w =
     w\<lparr>cfg := (cfg w)(cid := (cfg w cid)
          \<lparr>bindings := AList.update abstract b (bindings (cfg w cid))\<rparr>),
       st := (st w)\<lparr>conts := (conts (st w))(cid := (conts (st w) cid)
          \<lparr>binding_instance := (binding_instance (conts (st w) cid))(abstract := None)\<rparr>)\<rparr>\<rparr>"

definition singleton :: "nat \<Rightarrow> bindable \<Rightarrow> factory \<Rightarrow> world \<Rightarrow> world" where
  "singleton cid abstract f w = set_binding cid abstract (singleton_binding f) w"

definition transient :: "nat \<Rightarrow> bindable \<Rightarrow> factory \<Rightarrow> world \<Rightarrow> world" where
  "transient cid abstract f w = set_binding cid abstract (transient_binding f) w"

definition scoped :: "nat \<Rightarrow> bindable \<Rightarrow> factory \<Rightarrow> world \<Rightarrow> world" where
  "scoped cid abstract f w = set_binding cid abstract (scoped_binding abstract f) w"

text \<open>
  \<^verbatim>\<open>bind(abstract, factory, schema?)\<close>. A schema is its \<^verbatim>\<open>parse\<close>: the message of the
  \<^verbatim>\<open>ZodError\<close> it throws, or the parsed value. With a schema, the factory is run once at
  once and its product parsed; a \<^verbatim>\<open>ZodError\<close> becomes an \<^verbatim>\<open>InvalidSchemaError\<close>, any other
  error is thrown on. The schema is not stored.
\<close>

type_synonym schema = "val \<Rightarrow> string + val"

definition bind ::
  "impl \<Rightarrow> nat \<Rightarrow> nat \<Rightarrow> bindable \<Rightarrow> factory \<Rightarrow> schema option \<Rightarrow> world
     \<Rightarrow> ((error + unit) \<times> world) option" where
  "bind I n cid abstract f schema w =
     (case schema of
        None \<Rightarrow> Some (Inr (), set_binding cid abstract (bind_binding f) w)
      | Some sch \<Rightarrow>
          (case f cid (resolve I n (cfg w) cid) None (st w) of
             None \<Rightarrow> None
           | Some (Inl e, s') \<Rightarrow>
               (case e of
                  ZodError m \<Rightarrow> Some (Inl (InvalidSchemaError abstract m), w\<lparr>st := s'\<rparr>)
                | _ \<Rightarrow> Some (Inl e, w\<lparr>st := s'\<rparr>))
           | Some (Inr inst, s') \<Rightarrow>
               (case sch inst of
                  Inl m \<Rightarrow> Some (Inl (InvalidSchemaError abstract m), w\<lparr>st := s'\<rparr>)
                | Inr parsed \<Rightarrow>
                    Some (Inr (), set_binding cid abstract (bind_binding f) (w\<lparr>st := s'\<rparr>)))))"

text \<open>\<^verbatim>\<open>bind(abstract, factory)\<close>, without schema.\<close>

definition bind_plain :: "nat \<Rightarrow> bindable \<Rightarrow> factory \<Rightarrow> world \<Rightarrow> world" where
  "bind_plain cid abstract f w = set_binding cid abstract (bind_binding f) w"

text \<open>\<^verbatim>\<open>typeof abstract === 'string' || typeof abstract === 'symbol'\<close>\<close>

definition is_name :: "bindable \<Rightarrow> bool" where
  "is_name a = (case a of BStr s \<Rightarrow> True | BSym i d \<Rightarrow> True | _ \<Rightarrow> False)"

text \<open>The binding \<open>b\<close> is what one of the four registrations stores for \<open>abstract\<close> and \<open>f\<close>.\<close>

definition bound_with :: "bindable \<Rightarrow> factory \<Rightarrow> binding \<Rightarrow> bool" where
  "bound_with abstract f b =
     (b = bind_binding f \<or> b = singleton_binding f \<or> b = transient_binding f \<or>
      b = scoped_binding abstract f)"

definition instance_c :: "nat \<Rightarrow> bindable \<Rightarrow> val \<Rightarrow> world \<Rightarrow> world" where
  "instance_c cid abstract v w =
     w\<lparr>st := (st w)\<lparr>conts := (conts (st w))(cid := (conts (st w) cid)
          \<lparr>instances := (instances (conts (st w) cid))(abstract \<mapsto> v)\<rparr>)\<rparr>\<rparr>"

definition alias_c :: "nat \<Rightarrow> bindable \<Rightarrow> bindable \<Rightarrow> world \<Rightarrow> world" where
  "alias_c cid a abstract w =
     w\<lparr>cfg := (cfg w)(cid := (cfg w cid)\<lparr>aliases := (aliases (cfg w cid))(a \<mapsto> abstract)\<rparr>)\<rparr>"

definition tag :: "nat \<Rightarrow> bindable list \<Rightarrow> string \<Rightarrow> world \<Rightarrow> world" where
  "tag cid abstracts t w =
     w\<lparr>cfg := (cfg w)(cid := (cfg w cid)
          \<lparr>tags := (tags (cfg w cid))
             (t \<mapsto> (case tags (cfg w cid) t of None \<Rightarrow> [] | Some xs \<Rightarrow> xs) @ abstracts)\<rparr>)\<rparr>"

text \<open>\<^verbatim>\<open>when(concrete).needs(need).give(give)\<close>\<close>

definition when_needs_give :: "nat \<Rightarrow> bindable \<Rightarrow> bindable \<Rightarrow> giver \<Rightarrow> world \<Rightarrow> world" where
  "when_needs_give cid concrete nd g w =
     w\<lparr>cfg := (cfg w)(cid := (cfg w cid)
          \<lparr>contextualBindings := (contextualBindings (cfg w cid))
             (concrete \<mapsto> (case contextualBindings (cfg w cid) concrete of None \<Rightarrow> [] | Some bs \<Rightarrow> bs)
                @ [\<lparr>when_c = concrete, need = nd, give = g\<rparr>])\<rparr>)\<rparr>"

definition use :: "nat \<Rightarrow> middleware \<Rightarrow> world \<Rightarrow> world" where
  "use cid m w =
     w\<lparr>cfg := (cfg w)(cid := (cfg w cid)\<lparr>middlewares := middlewares (cfg w cid) @ [m]\<rparr>)\<rparr>"

text \<open>
  \<^verbatim>\<open>createScope()\<close> returns the new container and leaves it in \<^verbatim>\<open>this.children\<close>;
  \<^verbatim>\<open>createChild()\<close> does not.
\<close>

definition createScope :: "nat \<Rightarrow> world \<Rightarrow> nat \<times> world" where
  "createScope cid w =
     (let child = next_cid w in
      (child,
       w\<lparr>cfg := (cfg w)
            (child := empty_container\<lparr>parent := Some cid\<rparr>,
             cid := (cfg w cid)\<lparr>children := children (cfg w cid) @ [child]\<rparr>),
         st := (st w)\<lparr>conts := (conts (st w))(child := empty_cstate)\<rparr>,
         next_cid := Suc child\<rparr>))"

definition createChild :: "nat \<Rightarrow> world \<Rightarrow> nat \<times> world" where
  "createChild cid w =
     (let child = next_cid w in
      (child,
       w\<lparr>cfg := (cfg w)(child := empty_container\<lparr>parent := Some cid\<rparr>),
         st := (st w)\<lparr>conts := (conts (st w))(child := empty_cstate)\<rparr>,
         next_cid := Suc child\<rparr>))"

section \<open>Tags\<close>

text \<open>\<^verbatim>\<open>abstracts.map(abstract => this.resolve(abstract))\<close>: in order, the first throw ends it.\<close>

fun map_resolve :: "resolver \<Rightarrow> bindable list \<Rightarrow> val list comp" where
  "map_resolve r [] s = Some (Inr [], s)"
| "map_resolve r (x # xs) s =
     (case r x None s of
        None \<Rightarrow> None
      | Some (Inl e, s') \<Rightarrow> Some (Inl e, s')
      | Some (Inr v, s') \<Rightarrow>
          (case map_resolve r xs s' of
             None \<Rightarrow> None
           | Some (Inl e, s'') \<Rightarrow> Some (Inl e, s'')
           | Some (Inr vs, s'') \<Rightarrow> Some (Inr (v # vs), s'')))"

text \<open>\<^verbatim>\<open>tagged\<close> of container.ts and of \<^verbatim>\<open>DIContainer\<close>: \<^verbatim>\<open>this.tags.get(tag) || []\<close>.\<close>

definition tagged :: "impl \<Rightarrow> nat \<Rightarrow> (nat \<Rightarrow> container) \<Rightarrow> nat \<Rightarrow> string \<Rightarrow> val list comp" where
  "tagged I n cf cid t s =
     map_resolve (resolve I n cf cid)
       (case tags (cf cid) t of None \<Rightarrow> [] | Some xs \<Rightarrow> xs) s"

text \<open>
  \<^verbatim>\<open>tagged\<close> of the \<^verbatim>\<open>Container\<close> of mod.ts, over the \<^verbatim>\<open>tags\<close> table of that class; \<open>self\<close> is
  its \<^verbatim>\<open>this.resolve\<close>.
\<close>

definition mod_tagged :: "resolver \<Rightarrow> (string \<rightharpoonup> bindable list) \<Rightarrow> string \<Rightarrow> val list comp" where
  "mod_tagged self tgs t s =
     (case tgs t of
        None \<Rightarrow> Some (Inl (InvalidTagError t), s)
      | Some types \<Rightarrow>
          if length types = 0 then Some (Inl (InvalidTagError t), s)
          else map_resolve self types s)"

text \<open>\<^verbatim>\<open>tag\<close> of the \<^verbatim>\<open>Container\<close> of mod.ts, on its \<^verbatim>\<open>tags\<close> table.\<close>

definition mod_tag ::
  "bindable list \<Rightarrow> string \<Rightarrow> (string \<rightharpoonup> bindable list) \<Rightarrow> (string \<rightharpoonup> bindable list)" where
  "mod_tag types t tgs = tgs(t \<mapsto> (case tgs t of None \<Rightarrow> [] | Some xs \<Rightarrow> xs) @ types)"

section \<open>Disposal\<close>













section \<open>Factories of the examples\<close>

text \<open>\<^verbatim>\<open>() => new Service()\<close>; \<open>d\<close> is the \<^verbatim>\<open>dispose\<close> method of the class, if it has one.\<close>

definition new_object :: "dispose_method option \<Rightarrow> factory" where
  "new_object d container self context s =
     Some (Inr (VObj (allocated s) d), s\<lparr>allocated := Suc (allocated s)\<rparr>)"

text \<open>\<^verbatim>\<open>() => v\<close>\<close>

definition constant_factory :: "val \<Rightarrow> factory" where
  "constant_factory v container self context s = Some (Inr v, s)"

text \<open>\<^verbatim>\<open>(c) => k(c.resolve(dep))\<close>: the dependency is resolved first, a throw is not caught.\<close>

definition resolving :: "bindable \<Rightarrow> (val \<Rightarrow> factory) \<Rightarrow> factory" where
  "resolving dep k container self context =
     bind_c (self dep None) (\<lambda>v. k v container self context)"


section \<open>The scope chain\<close>

text \<open>
  \<open>is_chain cf cid cs\<close>: \<open>cs\<close> is the container \<open>cid\<close> followed by its ancestors, each the
  \<^verbatim>\<open>parent\<close> of the one before, up to a container without parent.
\<close>

fun is_chain :: "(nat \<Rightarrow> container) \<Rightarrow> nat \<Rightarrow> nat list \<Rightarrow> bool" where
  "is_chain cf cid [] = False"
| "is_chain cf cid [c] = (c = cid \<and> parent (cf c) = None)"
| "is_chain cf cid (c # p # ps) = (c = cid \<and> parent (cf c) = Some p \<and> is_chain cf p (p # ps))"

text \<open>The container \<open>d\<close> has an alias target, a registered instance or a binding for \<open>x\<close>.\<close>

definition provides :: "(nat \<Rightarrow> container) \<Rightarrow> store \<Rightarrow> nat \<Rightarrow> bindable \<Rightarrow> bool" where
  "provides cf s d x =
     (aliases (cf d) x \<noteq> None \<or> instances (conts s d) x \<noteq> None \<or>
      map_of (bindings (cf d)) x \<noteq> None)"

section \<open>Worlds of the examples\<close>

text \<open>\<^verbatim>\<open>const container = new Container(); const scope = container.createScope();\<close>\<close>

definition scope_world :: world where
  "scope_world = snd (createScope 0 new_world)"

text \<open>
  \<^verbatim>\<open>container.bind(A, (c) => new A(c.resolve(B))); container.bind(B, (c) => new B(c.resolve(A)));\<close>
\<close>

definition cycle_world :: world where
  "cycle_world =
     bind_plain 0 (BFun 2 ''B'') (resolving (BFun 1 ''A'') (\<lambda>a. new_object None))
       (bind_plain 0 (BFun 1 ''A'') (resolving (BFun 2 ''B'') (\<lambda>b. new_object None)) new_world)"

text \<open>\<^verbatim>\<open>container.singleton('SingletonService', () => new SingletonService());\<close>\<close>

definition singleton_world :: world where
  "singleton_world = singleton 0 (BStr ''SingletonService'') (new_object None) new_world"

text \<open>The store after \<^verbatim>\<open>container.resolve('SingletonService')\<close>.\<close>

definition singleton_built :: store where
  "singleton_built =
     snd (the (resolve DIContainer (Suc 0) (cfg singleton_world) 0 (BStr ''SingletonService'') None
       (st singleton_world)))"

text \<open>\<^verbatim>\<open>container.use((next) => { next(); return 'intercepted'; });\<close>\<close>

definition intercepting :: middleware where
  "intercepting next index = (Inr (VStr ''intercepted''), snd (next index))"

definition intercepted_world :: world where
  "intercepted_world = use 0 intercepting singleton_world"

text \<open>
  \<^verbatim>\<open>container.scoped(ScopedService, () => new ScopedService());\<close>
  \<^verbatim>\<open>const scope1 = container.createScope(); const scope2 = container.createScope();\<close>
  The scopes have the identities 1 and 2.
\<close>

definition scoped_world :: world where
  "scoped_world =
     snd (createScope 0 (snd (createScope 0
       (scoped 0 (BFun 1 ''ScopedService'') (new_object None) new_world))))"

text \<open>\<^verbatim>\<open>container.bind("Logger", () => new Logger());\<close>\<close>

definition logger_world :: world where
  "logger_world = bind_plain 0 (BStr ''Logger'') (new_object None) new_world"

text \<open>Then \<^verbatim>\<open>const scope = container.createScope(); scope.alias("L", "Logger");\<close>\<close>

definition scope_alias_world :: world where
  "scope_alias_world = alias_c 1 (BStr ''L'') (BStr ''Logger'') (snd (createScope 0 logger_world))"

text \<open>
  \<^verbatim>\<open>container.bind('PDFReport', () => 'PDF Report'); container.bind('CSVReport', () => 'CSV Report');\<close>
  \<^verbatim>\<open>container.tag(['PDFReport', 'CSVReport'], 'reports');\<close>
\<close>

definition reports_world :: world where
  "reports_world =
     tag 0 [BStr ''PDFReport'', BStr ''CSVReport''] ''reports''
       (bind_plain 0 (BStr ''CSVReport'') (constant_factory (VStr ''CSV Report''))
         (bind_plain 0 (BStr ''PDFReport'') (constant_factory (VStr ''PDF Report'')) new_world))"

text \<open>\<^verbatim>\<open>container.bind("config", () => "default");\<close>\<close>

definition config_world :: world where
  "config_world = bind_plain 0 (BStr ''config'') (constant_factory (VStr ''default'')) new_world"

text \<open>\<^verbatim>\<open>container.when("Service").needs("config").give(g);\<close>\<close>

definition override_world :: "giver \<Rightarrow> world" where
  "override_world g = when_needs_give 0 (BStr ''Service'') (BStr ''config'') g config_world"

text \<open>\<^verbatim>\<open>z.string()\<close>\<close>

definition string_schema :: schema where
  "string_schema v = (case v of VStr s \<Rightarrow> Inr v | _ \<Rightarrow> Inl ''Expected string'')"

text \<open>\<^verbatim>\<open>container.bind('Name', () => 'John');\<close>\<close>

definition name_world :: world where
  "name_world = bind_plain 0 (BStr ''Name'') (constant_factory (VStr ''John'')) new_world"






section \<open>Basic facts\<close>

lemmas run_defs = resolve.simps Let_def getAlias_def lifetime_dispatch_def singleton_instance_def
  contextual_instance_def find_contextual_def bind_c_def return_c_def finally_pop_def push_def
  pop_def cache_singleton_def applyMiddleware_def falsy_bindable_def run_giver_def

lemmas world_defs = new_world_def empty_container_def empty_cstate_def set_binding_def
  bind_plain_def singleton_def transient_def scoped_def bind_binding_def singleton_binding_def
  transient_binding_def scoped_binding_def scoped_resolver_def use_def createScope_def
  new_object_def constant_factory_def resolving_def

lemma resolve_no_fuel [simp]: "resolve I 0 cf cid x ctx s = None"
  by (simp add: resolve.simps)

lemma instances_pop: "instances (conts (pop cid s) d) = instances (conts s d)"
  by (simp add: pop_def)

lemma instances_cache_singleton:
  "instances (conts (cache_singleton cid a v s) cid) a = Some v"
  by (simp add: cache_singleton_def)

lemma pop_push: "pop cid (push cid a s) = s"
  by (simp add: push_def pop_def)

lemma instances_push: "instances (conts (push cid a s) d) = instances (conts s d)"
  by (simp add: push_def)

lemma binding_instance_push:
  "binding_instance (conts (push cid a s) d) = binding_instance (conts s d)"
  by (simp add: push_def)

lemma getAlias_None: "aliases c x = None \<Longrightarrow> getAlias c x = x"
  by (cases x) (simp_all add: getAlias_def)

lemma getAlias_Some:
  "is_name a \<Longrightarrow> aliases c a = Some t \<Longrightarrow> \<not> falsy_bindable t \<Longrightarrow> getAlias c a = t"
  by (cases a) (simp_all add: getAlias_def is_name_def)

lemma cfg_alias_c:
  "cfg (alias_c cid a t w) cid = (cfg w cid)\<lparr>aliases := (aliases (cfg w cid))(a \<mapsto> t)\<rparr>"
  by (simp add: alias_c_def)

lemma getAlias_alias_other:
  "t \<noteq> a \<Longrightarrow> getAlias (c\<lparr>aliases := (aliases c)(a \<mapsto> u)\<rparr>) t = getAlias c t"
  by (cases t) (simp_all add: getAlias_def)

lemma allocated_push: "allocated (push cid a s) = allocated s"
  by (simp add: push_def)

lemma pop_cache_push:
  "pop cid (cache_singleton cid a v (push cid a s)) = cache_singleton cid a v s"
  by (simp add: push_def pop_def cache_singleton_def)

lemma stack_push:
  "resolvingStack (conts (push cid a s) cid) = resolvingStack (conts s cid) @ [a]"
  by (simp add: push_def)

lemma bind_without_schema:
  "bind I n cid abstract f None w = Some (Inr (), bind_plain cid abstract f w)"
  by (simp add: bind_def bind_plain_def)

text \<open>The three ways \<^verbatim>\<open>resolve\<close> goes on after the alias and the registered instances.\<close>

lemma resolve_bound:
  assumes "instances (conts s cid) (getAlias (cf cid) x) = None"
    and "getAlias (cf cid) x \<notin> set (resolvingStack (conts s cid))"
    and "map_of (bindings (cf cid)) (getAlias (cf cid) x) = Some b"
  shows "resolve I (Suc n) cf cid x ctx s =
     finally_pop cid
       (bind_c (lifetime_dispatch I (cf cid) cid (resolve I n cf cid) b (getAlias (cf cid) x) ctx)
          (\<lambda>inst. return_c (applyMiddleware (middlewares (cf cid)) inst))
          (push cid (getAlias (cf cid) x) s))"
  using assms by (simp add: resolve.simps Let_def)

lemma resolve_cycle_DIContainer:
  assumes "instances (conts s cid) (getAlias (cf cid) x) = None"
    and "getAlias (cf cid) x \<in> set (resolvingStack (conts s cid))"
  shows "resolve DIContainer (Suc n) cf cid x ctx s =
     Some (Inl (CircularDependencyError (resolvingStack (conts s cid) @ [getAlias (cf cid) x])), s)"
  using assms by (simp add: resolve.simps Let_def)

lemma resolve_cycle_ContainerTs:
  assumes "instances (conts s cid) (getAlias (cf cid) x) = None"
    and "getAlias (cf cid) x \<in> set (resolvingStack (conts s cid))"
  shows "resolve ContainerTs (Suc n) cf cid x ctx s =
     Some (Inr (VProxy (allocated s) (getAlias (cf cid) x)), s\<lparr>allocated := Suc (allocated s)\<rparr>)"
  using assms by (simp add: resolve.simps Let_def)

lemma resolve_instance:
  assumes "instances (conts s cid) (getAlias (cf cid) x) = Some v"
  shows "resolve I (Suc n) cf cid x ctx s = Some (Inr v, s)"
  using assms by (simp add: resolve.simps Let_def)

section \<open>Cycles\<close>

text \<open>
  A factory \<^verbatim>\<open>(c) => k(c.resolve(dep))\<close> of a binding not yet built, run without context,
  throws what \<^verbatim>\<open>c.resolve(dep)\<close> throws, whichever registration stored it.
\<close>

lemma dispatch_resolving_throws:
  assumes "bound_with a (resolving dep k) b"
    and "binding_instance (conts s cid) a = None"
    and "instances (conts s cid) a = None"
    and "self dep None s = Some (Inl e, s')"
  shows "lifetime_dispatch I c cid self b a None s = Some (Inl e, s')"
  using assms
  by (auto simp: bound_with_def lifetime_dispatch_def singleton_instance_def
      contextual_instance_def bind_c_def return_c_def resolving_def bind_binding_def
      singleton_binding_def transient_binding_def scoped_binding_def scoped_resolver_def)

text \<open>
  C1, as amended. In a \<^verbatim>\<open>DIContainer\<close> where \<open>A\<close> is bound (by \<^verbatim>\<open>bind\<close>, \<^verbatim>\<open>singleton\<close>,
  \<^verbatim>\<open>transient\<close> or \<^verbatim>\<open>scoped\<close>) with a factory that resolves \<open>B\<close>, and \<open>B\<close> with a factory that
  resolves \<open>A\<close>, neither of them aliased, built, registered as an instance or under
  construction, \<^verbatim>\<open>resolve(A)\<close> throws a \<^verbatim>\<open>CircularDependencyError\<close> whose chain is the
  resolving stack followed by \<open>A\<close>, \<open>B\<close>, \<open>A\<close>, and the store is left as it was. In the
  \<^verbatim>\<open>Container\<close> of container.ts the inner \<^verbatim>\<open>resolve(A)\<close> does not throw: it returns a new
  proxy to the factory of \<open>B\<close>.
\<close>

theorem circular_dependency_chain:
  assumes al: "aliases (cf cid) A = None" "aliases (cf cid) B = None"
    and ne: "A \<noteq> B"
    and bA: "map_of (bindings (cf cid)) A = Some bA" "bound_with A (resolving B kA) bA"
    and bB: "map_of (bindings (cf cid)) B = Some bB" "bound_with B (resolving A kB) bB"
    and fresh: "\<forall>x\<in>{A, B}. instances (conts s cid) x = None \<and>
        binding_instance (conts s cid) x = None \<and> x \<notin> set (resolvingStack (conts s cid))"
  shows "resolve DIContainer (Suc (Suc (Suc n))) cf cid A None s =
       Some (Inl (CircularDependencyError (resolvingStack (conts s cid) @ [A, B, A])), s) \<and>
     resolve ContainerTs (Suc n) cf cid A None (push cid B (push cid A s)) =
       Some (Inr (VProxy (allocated s) A),
         (push cid B (push cid A s))\<lparr>allocated := Suc (allocated s)\<rparr>)"
proof -
  let ?s1 = "push cid A s" and ?s2 = "push cid B (push cid A s)"
  let ?e = "CircularDependencyError (resolvingStack (conts s cid) @ [A, B, A])"
  have gA: "getAlias (cf cid) A = A" and gB: "getAlias (cf cid) B = B"
    using al by (simp_all add: getAlias_None)
  have inner: "resolve DIContainer (Suc n) cf cid A None ?s2 = Some (Inl ?e, ?s2)"
    using fresh resolve_cycle_DIContainer [of ?s2 cid cf A n None]
    by (simp add: gA instances_push stack_push)
  have dB: "lifetime_dispatch DIContainer (cf cid) cid (resolve DIContainer (Suc n) cf cid)
      bB B None ?s2 = Some (Inl ?e, ?s2)"
    using fresh bB(2) inner
      dispatch_resolving_throws [of B A kB bB ?s2 cid "resolve DIContainer (Suc n) cf cid" ?e ?s2]
    by (simp add: instances_push binding_instance_push)
  have middle: "resolve DIContainer (Suc (Suc n)) cf cid B None ?s1 = Some (Inl ?e, ?s1)"
    using fresh ne bB(1) dB resolve_bound [of ?s1 cid cf B bB DIContainer "Suc n" None]
    by (simp add: gB instances_push stack_push finally_pop_def bind_c_def pop_push)
  have dA: "lifetime_dispatch DIContainer (cf cid) cid (resolve DIContainer (Suc (Suc n)) cf cid)
      bA A None ?s1 = Some (Inl ?e, ?s1)"
    using fresh bA(2) middle
      dispatch_resolving_throws [of A B kA bA ?s1 cid "resolve DIContainer (Suc (Suc n)) cf cid" ?e ?s1]
    by (simp add: instances_push binding_instance_push)
  have outer: "resolve DIContainer (Suc (Suc (Suc n))) cf cid A None s = Some (Inl ?e, s)"
    using fresh bA(1) dA resolve_bound [of s cid cf A bA DIContainer "Suc (Suc n)" None]
    by (simp add: gA finally_pop_def bind_c_def pop_push)
  have proxy: "resolve ContainerTs (Suc n) cf cid A None ?s2 =
      Some (Inr (VProxy (allocated s) A), ?s2\<lparr>allocated := Suc (allocated s)\<rparr>)"
    using fresh resolve_cycle_ContainerTs [of ?s2 cid cf A n None]
    by (simp add: gA instances_push stack_push allocated_push)
  from outer proxy show ?thesis by simp
qed

theorem circular_dependency_witness:
  "BFun 1 ''A'' \<noteq> BFun 2 ''B'' \<and>
   map_of (bindings (cfg cycle_world 0)) (BFun 1 ''A'') =
     Some (bind_binding (resolving (BFun 2 ''B'') (\<lambda>b. new_object None))) \<and>
   map_of (bindings (cfg cycle_world 0)) (BFun 2 ''B'') =
     Some (bind_binding (resolving (BFun 1 ''A'') (\<lambda>a. new_object None))) \<and>
   resolve DIContainer (Suc (Suc (Suc 0))) (cfg cycle_world) 0 (BFun 1 ''A'') None
     (st cycle_world) =
     Some (Inl (CircularDependencyError [BFun 1 ''A'', BFun 2 ''B'', BFun 1 ''A'']),
       st cycle_world)"
proof -
  let ?A = "BFun 1 ''A''" and ?B = "BFun 2 ''B''"
  have al: "aliases (cfg cycle_world 0) ?A = None" "aliases (cfg cycle_world 0) ?B = None"
    by (simp_all add: cycle_world_def bind_plain_def set_binding_def new_world_def
        empty_container_def)
  have ne: "?A \<noteq> ?B" by simp
  have bA: "map_of (bindings (cfg cycle_world 0)) ?A =
      Some (bind_binding (resolving ?B (\<lambda>b. new_object None)))"
    by (simp add: cycle_world_def bind_plain_def set_binding_def new_world_def empty_container_def)
  have bB: "map_of (bindings (cfg cycle_world 0)) ?B =
      Some (bind_binding (resolving ?A (\<lambda>a. new_object None)))"
    by (simp add: cycle_world_def bind_plain_def set_binding_def new_world_def empty_container_def)
  have wA: "bound_with ?A (resolving ?B (\<lambda>b. new_object None))
      (bind_binding (resolving ?B (\<lambda>b. new_object None)))"
    and wB: "bound_with ?B (resolving ?A (\<lambda>a. new_object None))
      (bind_binding (resolving ?A (\<lambda>a. new_object None)))"
    by (simp_all add: bound_with_def)
  have fresh: "\<forall>x\<in>{?A, ?B}. instances (conts (st cycle_world) 0) x = None \<and>
      binding_instance (conts (st cycle_world) 0) x = None \<and>
      x \<notin> set (resolvingStack (conts (st cycle_world) 0))"
    by (simp add: cycle_world_def bind_plain_def set_binding_def new_world_def empty_cstate_def)
  have st: "resolvingStack (conts (st cycle_world) 0) = []"
    by (simp add: cycle_world_def bind_plain_def set_binding_def new_world_def empty_cstate_def)
  from circular_dependency_chain [where cf = "cfg cycle_world" and cid = 0
      and s = "st cycle_world" and n = 0, OF al ne bA wA bB wB fresh] ne bA bB st
  show ?thesis by simp
qed

text \<open>
  The claim as stated fails on the \<^verbatim>\<open>Container\<close> of container.ts: with the two bindings of
  the example, \<^verbatim>\<open>resolve(A)\<close> returns the object the factory of \<open>A\<close> built.
\<close>

theorem circular_dependency_counterexample:
  "map_option fst (resolve ContainerTs (Suc (Suc (Suc 0))) (cfg cycle_world) 0 (BFun 1 ''A'') None
      (st cycle_world)) = Some (Inr (VObj 2 None))"
  by (simp add: cycle_world_def bind_plain_def set_binding_def new_world_def empty_container_def
      empty_cstate_def bind_binding_def resolving_def new_object_def resolve.simps Let_def
      getAlias_def lifetime_dispatch_def singleton_instance_def contextual_instance_def
      bind_c_def return_c_def finally_pop_def push_def pop_def applyMiddleware_def)

section \<open>Singletons\<close>

lemma singleton_dispatch_fresh:
  assumes "binding_instance (conts s cid) a = None"
    and "lifetime_dispatch I c cid self (singleton_binding f) a None s = Some (Inr v, s')"
  shows "instances (conts s' cid) a = Some v"
  using assms
  by (auto simp: lifetime_dispatch_def singleton_binding_def singleton_instance_def
      contextual_instance_def return_c_def bind_c_def instances_cache_singleton
      split: option.splits sum.splits if_splits)

text \<open>
  C2, as amended. Let \<open>x\<close> be bound by \<^verbatim>\<open>singleton(x, f)\<close> and not under construction, and
  let it either have an entry in \<^verbatim>\<open>instances\<close> or not be built yet (\<^verbatim>\<open>binding.instance\<close> is
  assigned together with \<^verbatim>\<open>instances.set\<close>, so one of the two holds in every state that
  calls of the container's methods reach). If \<^verbatim>\<open>resolve(x)\<close> returns \<open>v\<close>, then every later
  \<^verbatim>\<open>resolve(x)\<close>, with any context, returns one and the same \<open>u\<close>, the entry of \<^verbatim>\<open>instances\<close>,
  and leaves the store as it is: the factory is not run again, whatever it is and whatever
  the middlewares are. When there was an entry already, the first call returned it: \<open>v\<close> is
  \<open>u\<close>. Otherwise \<open>u\<close> is the instance the first call built, and \<open>v\<close> is what the middleware
  chain made of \<open>u\<close> in that call; \<open>v\<close> is \<open>u\<close> when the chain returns the instance it is
  given, as the empty chain does.
\<close>

theorem singleton_resolved_twice:
  fixes cf :: "nat \<Rightarrow> container" and cid :: nat and x :: bindable
  defines "a \<equiv> getAlias (cf cid) x"
  assumes b: "map_of (bindings (cf cid)) a = Some (singleton_binding f)"
    and nu: "a \<notin> set (resolvingStack (conts s cid))"
    and nb: "instances (conts s cid) a \<noteq> None \<or> binding_instance (conts s cid) a = None"
    and first: "resolve I n cf cid x None s = Some (Inr v, s1)"
  shows "\<exists>u. (\<forall>m ctx. resolve I (Suc m) cf cid x ctx s1 = Some (Inr u, s1)) \<and>
     instances (conts s1 cid) a = Some u \<and>
     (if instances (conts s cid) a = None
      then v = applyMiddleware (middlewares (cf cid)) u
      else v = u \<and> s1 = s) \<and>
     (applyMiddleware (middlewares (cf cid)) u = u \<longrightarrow> v = u)"
proof -
  from first obtain n' where n: "n = Suc n'" by (cases n) simp_all
  show ?thesis
  proof (cases "instances (conts s cid) a")
    case (Some u)
    then have i: "instances (conts s cid) (getAlias (cf cid) x) = Some u"
      by (simp add: a_def)
    with first n have vs: "v = u" "s1 = s" by (simp_all add: resolve_instance)
    have "\<forall>m ctx. resolve I (Suc m) cf cid x ctx s1 = Some (Inr u, s1)"
      using i vs by (simp add: resolve_instance)
    with Some vs show ?thesis by auto
  next
    case None
    with nb have bi: "binding_instance (conts s cid) a = None" by simp
    have i: "instances (conts s cid) (getAlias (cf cid) x) = None"
      and st: "getAlias (cf cid) x \<notin> set (resolvingStack (conts s cid))"
      and b': "map_of (bindings (cf cid)) (getAlias (cf cid) x) = Some (singleton_binding f)"
      using None nu b by (simp_all add: a_def)
    from first n resolve_bound [where cf = cf and cid = cid and I = I and n = n' and ctx = None,
        OF i st b']
    obtain u s' where d: "lifetime_dispatch I (cf cid) cid (resolve I n' cf cid)
          (singleton_binding f) a None (push cid a s) = Some (Inr u, s')"
      and v: "v = applyMiddleware (middlewares (cf cid)) u" and s1: "s1 = pop cid s'"
      by (auto simp: a_def finally_pop_def bind_c_def return_c_def
          split: option.splits sum.splits)
    have "binding_instance (conts (push cid a s) cid) a = None"
      using bi by (simp add: binding_instance_push)
    from singleton_dispatch_fresh [OF this d]
    have "instances (conts s1 cid) a = Some u"
      using s1 by (simp add: instances_pop)
    then have c: "instances (conts s1 cid) (getAlias (cf cid) x) = Some u"
      by (simp add: a_def)
    then have "\<forall>m ctx. resolve I (Suc m) cf cid x ctx s1 = Some (Inr u, s1)"
      by (simp add: resolve_instance)
    with c v None show ?thesis by (auto simp: a_def)
  qed
qed

text \<open>
  On the container of the example, without middleware and then with the middleware that
  returns \<^verbatim>\<open>'intercepted'\<close>: the later calls return the object 0 and build nothing.
\<close>

theorem singleton_resolved_twice_witness:
  "map_of (bindings (cfg singleton_world 0))
     (getAlias (cfg singleton_world 0) (BStr ''SingletonService''))
     = Some (singleton_binding (new_object None)) \<and>
   resolve DIContainer (Suc 0) (cfg singleton_world) 0 (BStr ''SingletonService'') None
     (st singleton_world) = Some (Inr (VObj 0 None), singleton_built) \<and>
   (\<forall>m ctx. resolve DIContainer (Suc m) (cfg singleton_world) 0 (BStr ''SingletonService'') ctx
     singleton_built = Some (Inr (VObj 0 None), singleton_built)) \<and>
   resolve ContainerTs (Suc 0) (cfg intercepted_world) 0 (BStr ''SingletonService'') None
     (st intercepted_world) = Some (Inr (VStr ''intercepted''), singleton_built) \<and>
   (\<forall>m ctx. resolve ContainerTs (Suc m) (cfg intercepted_world) 0 (BStr ''SingletonService'') ctx
     singleton_built = Some (Inr (VObj 0 None), singleton_built))"
proof -
  let ?x = "BStr ''SingletonService''"
  have g: "getAlias (cfg singleton_world 0) ?x = ?x" "getAlias (cfg intercepted_world 0) ?x = ?x"
    by (simp_all add: intercepted_world_def singleton_world_def world_defs getAlias_def)
  have b: "map_of (bindings (cfg singleton_world 0)) (getAlias (cfg singleton_world 0) ?x)
      = Some (singleton_binding (new_object None))"
    and b2: "map_of (bindings (cfg intercepted_world 0)) (getAlias (cfg intercepted_world 0) ?x)
      = Some (singleton_binding (new_object None))"
    by (simp_all add: intercepted_world_def singleton_world_def world_defs getAlias_def)
  have nu: "getAlias (cfg singleton_world 0) ?x \<notin> set (resolvingStack (conts (st singleton_world) 0))"
    and nu2: "getAlias (cfg intercepted_world 0) ?x \<notin>
      set (resolvingStack (conts (st intercepted_world) 0))"
    by (simp_all add: g) (simp_all add: intercepted_world_def singleton_world_def world_defs)
  have nb: "instances (conts (st singleton_world) 0) (getAlias (cfg singleton_world 0) ?x) \<noteq> None \<or>
      binding_instance (conts (st singleton_world) 0) (getAlias (cfg singleton_world 0) ?x) = None"
    and nb2: "instances (conts (st intercepted_world) 0) (getAlias (cfg intercepted_world 0) ?x) \<noteq> None \<or>
      binding_instance (conts (st intercepted_world) 0) (getAlias (cfg intercepted_world 0) ?x) = None"
    by (simp_all add: g) (simp_all add: intercepted_world_def singleton_world_def world_defs)
  have first: "resolve DIContainer (Suc 0) (cfg singleton_world) 0 ?x None
      (st singleton_world) = Some (Inr (VObj 0 None), singleton_built)"
    by (simp add: singleton_built_def singleton_world_def world_defs run_defs)
  have first2: "resolve ContainerTs (Suc 0) (cfg intercepted_world) 0 ?x None
      (st intercepted_world) = Some (Inr (VStr ''intercepted''), singleton_built)"
    by (simp add: singleton_built_def intercepted_world_def intercepting_def singleton_world_def
        world_defs run_defs)
  have i: "instances (conts singleton_built 0) ?x = Some (VObj 0 None)"
    by (simp add: singleton_built_def singleton_world_def world_defs run_defs)
  from singleton_resolved_twice [where cf = "cfg singleton_world" and cid = 0, OF b nu nb first] i
  have one: "\<forall>m ctx. resolve DIContainer (Suc m) (cfg singleton_world) 0 ?x ctx singleton_built =
      Some (Inr (VObj 0 None), singleton_built)"
    by (auto simp: g)
  from singleton_resolved_twice [where cf = "cfg intercepted_world" and cid = 0,
      OF b2 nu2 nb2 first2] i
  have two: "\<forall>m ctx. resolve ContainerTs (Suc m) (cfg intercepted_world) 0 ?x ctx singleton_built =
      Some (Inr (VObj 0 None), singleton_built)"
    by (auto simp: g)
  from b first one first2 two show ?thesis by simp
qed

text \<open>
  The claim as stated fails when a middleware changes the value: the first
  \<^verbatim>\<open>resolve\<close> returns what the chain returns, the second returns the cached instance and
  does not run the chain. Here the chain returns a string and the instance is an object,
  in both classes. It also fails in the \<^verbatim>\<open>Container\<close> of container.ts while the singleton is
  under construction, as it is when its own factory resolves it: each call returns a new
  proxy.
\<close>

theorem singleton_middleware_counterexample:
  "map_option fst (resolve DIContainer (Suc 0) (cfg intercepted_world) 0 (BStr ''SingletonService'')
      None (st intercepted_world)) = Some (Inr (VStr ''intercepted'')) \<and>
   map_option fst (resolve DIContainer (Suc 0) (cfg intercepted_world) 0 (BStr ''SingletonService'')
      None (snd (the (resolve DIContainer (Suc 0) (cfg intercepted_world) 0
        (BStr ''SingletonService'') None (st intercepted_world))))) = Some (Inr (VObj 0 None)) \<and>
   map_option fst (resolve ContainerTs (Suc 0) (cfg intercepted_world) 0 (BStr ''SingletonService'')
      None (st intercepted_world)) = Some (Inr (VStr ''intercepted'')) \<and>
   map_option fst (resolve ContainerTs (Suc 0) (cfg intercepted_world) 0 (BStr ''SingletonService'')
      None (snd (the (resolve ContainerTs (Suc 0) (cfg intercepted_world) 0
        (BStr ''SingletonService'') None (st intercepted_world))))) = Some (Inr (VObj 0 None)) \<and>
   map_option fst (resolve ContainerTs (Suc 0) (cfg singleton_world) 0 (BStr ''SingletonService'')
      None (push 0 (BStr ''SingletonService'') (st singleton_world))) =
      Some (Inr (VProxy 0 (BStr ''SingletonService''))) \<and>
   map_option fst (resolve ContainerTs (Suc 0) (cfg singleton_world) 0 (BStr ''SingletonService'')
      None (snd (the (resolve ContainerTs (Suc 0) (cfg singleton_world) 0
        (BStr ''SingletonService'') None (push 0 (BStr ''SingletonService'') (st singleton_world))))))
      = Some (Inr (VProxy 1 (BStr ''SingletonService'')))"
  by (simp add: intercepted_world_def intercepting_def singleton_world_def world_defs run_defs)

section \<open>Scoped bindings\<close>

text \<open>
  C3, at the input of README.md and of the scoped-binding example. A scope has no binding
  for the identifier, so \<^verbatim>\<open>scope1.resolve(ScopedService)\<close> is
  \<^verbatim>\<open>this.parent.resolve(ScopedService)\<close>: the resolver of the binding is run with the parent
  and stores the instance in the \<^verbatim>\<open>instances\<close> of the parent. \<^verbatim>\<open>scope2\<close> then gets that very
  object, in both classes, and neither scope holds an instance of its own.
\<close>

theorem sibling_scopes_share_scoped_instance:
  "map_option fst (resolve DIContainer (Suc (Suc 0)) (cfg scoped_world) 1 (BFun 1 ''ScopedService'')
      None (st scoped_world)) = Some (Inr (VObj 0 None)) \<and>
   map_option fst (resolve DIContainer (Suc (Suc 0)) (cfg scoped_world) 2 (BFun 1 ''ScopedService'')
      None (snd (the (resolve DIContainer (Suc (Suc 0)) (cfg scoped_world) 1
        (BFun 1 ''ScopedService'') None (st scoped_world))))) = Some (Inr (VObj 0 None)) \<and>
   map_option fst (resolve ContainerTs (Suc (Suc 0)) (cfg scoped_world) 1 (BFun 1 ''ScopedService'')
      None (st scoped_world)) = Some (Inr (VObj 0 None)) \<and>
   map_option fst (resolve ContainerTs (Suc (Suc 0)) (cfg scoped_world) 2 (BFun 1 ''ScopedService'')
      None (snd (the (resolve ContainerTs (Suc (Suc 0)) (cfg scoped_world) 1
        (BFun 1 ''ScopedService'') None (st scoped_world))))) = Some (Inr (VObj 0 None)) \<and>
   instances (conts (snd (the (resolve DIContainer (Suc (Suc 0)) (cfg scoped_world) 1
        (BFun 1 ''ScopedService'') None (st scoped_world)))) 1) (BFun 1 ''ScopedService'') = None \<and>
   instances (conts (snd (the (resolve DIContainer (Suc (Suc 0)) (cfg scoped_world) 1
        (BFun 1 ''ScopedService'') None (st scoped_world)))) 0) (BFun 1 ''ScopedService'')
     = Some (VObj 0 None)"
  by (simp add: scoped_world_def world_defs run_defs)

section \<open>Unresolved dependencies\<close>

text \<open>
  Along a chain of distinct containers none of which provides \<open>x\<close>, each container pushes
  \<open>x\<close>, asks its parent, and pops; the last one throws.
\<close>

lemma unresolved_chain:
  "is_chain cf cid cs \<Longrightarrow> distinct cs \<Longrightarrow>
   list_all (\<lambda>d. \<not> provides cf s d x \<and> x \<notin> set (resolvingStack (conts s d))) cs \<Longrightarrow>
   resolve I (length cs + k) cf cid x ctx s = Some (Inl (UnresolvedDependencyError x), s)"
proof (induction cs arbitrary: cid s ctx)
  case Nil
  then show ?case by simp
next
  case (Cons c cs)
  show ?case
  proof (cases cs)
    case Nil
    with Cons.prems have "c = cid" "parent (cf cid) = None" "aliases (cf cid) x = None"
        "instances (conts s cid) x = None" "map_of (bindings (cf cid)) x = None"
        "x \<notin> set (resolvingStack (conts s cid))"
      by (auto simp: provides_def)
    with Nil show ?thesis
      by (simp add: resolve.simps getAlias_None finally_pop_def pop_push)
  next
    case (Cons p ps)
    from Cons.prems Cons have c: "c = cid" "parent (cf cid) = Some p" "is_chain cf p cs"
        "distinct cs" "cid \<notin> set cs"
      by auto
    from Cons.prems c have loc: "aliases (cf cid) x = None" "instances (conts s cid) x = None"
        "map_of (bindings (cf cid)) x = None" "x \<notin> set (resolvingStack (conts s cid))"
      by (auto simp: provides_def)
    have same: "\<forall>d\<in>set cs. conts (push cid x s) d = conts s d"
      using c(5) by (auto simp: push_def)
    have "list_all (\<lambda>d. \<not> provides cf (push cid x s) d x \<and>
            x \<notin> set (resolvingStack (conts (push cid x s) d))) cs"
      using Cons.prems(3) same
      by (simp add: list_all_iff provides_def)
    from Cons.IH [OF c(3,4) this]
    have "resolve I (length cs + k) cf p x None (push cid x s) =
            Some (Inl (UnresolvedDependencyError x), push cid x s)" .
    with c loc show ?thesis
      by (simp add: resolve.simps getAlias_None finally_pop_def pop_push)
  qed
qed

text \<open>
  C4. If \<open>x\<close> has no binding, no registered instance and no alias target in the container
  \<open>cid\<close> nor in any of its ancestors \<open>cs\<close>, and is under construction in none of them, then
  \<^verbatim>\<open>resolve(x)\<close> on \<open>cid\<close> throws the \<^verbatim>\<open>UnresolvedDependencyError\<close> built from \<open>x\<close>, with any
  context, in both classes, and leaves the store as it was. The fuel needed is the length
  of the chain.
\<close>

theorem unresolved_dependency_names_identifier:
  assumes "is_chain cf cid cs" and "distinct cs"
    and "\<forall>d\<in>set cs. \<not> provides cf s d x \<and> x \<notin> set (resolvingStack (conts s d))"
  shows "resolve I (length cs + k) cf cid x ctx s = Some (Inl (UnresolvedDependencyError x), s)"
  using assms unresolved_chain [of cf cid cs s x I k ctx] by (simp add: list_all_iff)

theorem unresolved_dependency_witness:
  "is_chain (cfg scope_world) 1 [1, 0] \<and> distinct [1::nat, 0] \<and>
   \<not> provides (cfg scope_world) (st scope_world) 1 (BStr ''Unregistered'') \<and>
   \<not> provides (cfg scope_world) (st scope_world) 0 (BStr ''Unregistered'') \<and>
   resolve ContainerTs (Suc (Suc 0)) (cfg scope_world) 1 (BStr ''Unregistered'') None
     (st scope_world) =
     Some (Inl (UnresolvedDependencyError (BStr ''Unregistered'')), st scope_world)"
proof -
  have h1: "is_chain (cfg scope_world) 1 [1, 0]"
    by (simp add: scope_world_def createScope_def new_world_def empty_container_def Let_def)
  have h2: "distinct [1::nat, 0]" by simp
  have h3: "\<not> provides (cfg scope_world) (st scope_world) 1 (BStr ''Unregistered'')"
       "\<not> provides (cfg scope_world) (st scope_world) 0 (BStr ''Unregistered'')"
    by (simp_all add: scope_world_def createScope_def new_world_def provides_def
        empty_container_def empty_cstate_def Let_def)
  have h4: "\<forall>d\<in>set [1, 0].
      \<not> provides (cfg scope_world) (st scope_world) d (BStr ''Unregistered'') \<and>
      BStr ''Unregistered'' \<notin> set (resolvingStack (conts (st scope_world) d))"
    using h3 by (simp add: scope_world_def createScope_def new_world_def empty_cstate_def Let_def)
  from unresolved_dependency_names_identifier [OF h1 h2 h4, of ContainerTs 0 None] h1 h2 h3
  show ?thesis by simp
qed

section \<open>Aliases\<close>

text \<open>
  Two identifiers with the same image under \<^verbatim>\<open>getAlias\<close> resolve alike as long as the
  container itself holds an instance or a binding for the image: only the delegation to
  the parent and the \<^verbatim>\<open>UnresolvedDependencyError\<close> use the identifier as it was given.
\<close>

lemma alias_equivalent:
  assumes "getAlias (cf cid) l = t" and "getAlias (cf cid) t = t"
    and "instances (conts s cid) t \<noteq> None \<or> map_of (bindings (cf cid)) t \<noteq> None"
  shows "resolve I n cf cid l ctx s = resolve I n cf cid t ctx s"
proof (cases n)
  case 0
  then show ?thesis by simp
next
  case (Suc m)
  show ?thesis
    unfolding Suc resolve.simps Let_def assms(1) assms(2)
    using assms(3) by (auto split: option.splits)
qed

text \<open>
  The image \<open>m\<close> of \<open>l\<close> is looked up in \<^verbatim>\<open>instances\<close> and \<^verbatim>\<open>bindings\<close>, never in \<^verbatim>\<open>aliases\<close>
  again; when it is found in neither, the ancestors are asked for \<open>l\<close>.
\<close>

lemma alias_single_hop:
  assumes g: "getAlias (cf cid) l = m"
    and m: "instances (conts s cid) m = None" "map_of (bindings (cf cid)) m = None"
      "m \<notin> set (resolvingStack (conts s cid))"
    and ch: "is_chain cf cid (cid # ps)" "distinct (cid # ps)"
      "\<forall>d\<in>set ps. \<not> provides cf s d l \<and> l \<notin> set (resolvingStack (conts s d))"
  shows "resolve I (Suc (length ps + k)) cf cid l ctx s =
     Some (Inl (UnresolvedDependencyError l), s)"
proof (cases ps)
  case Nil
  with ch have "parent (cf cid) = None" by simp
  with g m show ?thesis
    by (simp add: resolve.simps Let_def finally_pop_def pop_push)
next
  case (Cons p ps')
  with ch have p: "parent (cf cid) = Some p" "is_chain cf p ps" "distinct ps" "cid \<notin> set ps"
    by auto
  have same: "\<forall>d\<in>set ps. conts (push cid m s) d = conts s d"
    using p(4) by (auto simp: push_def)
  have "list_all (\<lambda>d. \<not> provides cf (push cid m s) d l \<and>
          l \<notin> set (resolvingStack (conts (push cid m s) d))) ps"
    using ch(3) same by (simp add: list_all_iff provides_def)
  from unresolved_chain [OF p(2,3) this, of I k None]
  have "resolve I (length ps + k) cf p l None (push cid m s) =
      Some (Inl (UnresolvedDependencyError l), push cid m s)" .
  with g m p(1) show ?thesis
    by (simp add: resolve.simps Let_def finally_pop_def pop_push)
qed

text \<open>
  After \<^verbatim>\<open>alias(l, t)\<close>, when the container holds neither an instance nor a binding for
  \<open>t\<close>, \<^verbatim>\<open>resolve(l)\<close> asks the parent for \<open>l\<close>, not for \<open>t\<close>.
\<close>

lemma alias_delegates_alias:
  assumes g: "getAlias (cf cid) l = t"
    and m: "instances (conts s cid) t = None" "map_of (bindings (cf cid)) t = None"
      "t \<notin> set (resolvingStack (conts s cid))"
  shows "resolve I (Suc n) cf cid l ctx s =
     (case parent (cf cid) of
        None \<Rightarrow> Some (Inl (UnresolvedDependencyError l), s)
      | Some p \<Rightarrow> finally_pop cid (resolve I n cf p l None (push cid t s)))"
  using g m
  by (simp add: resolve.simps Let_def finally_pop_def pop_push split: option.splits)

text \<open>
  C5, as amended. After \<^verbatim>\<open>alias(l, t)\<close>, where \<open>t\<close> is not the empty string nor itself an
  alias, and the container that was given the alias holds an instance or a binding for
  \<open>t\<close>, \<^verbatim>\<open>resolve(l)\<close> is \<^verbatim>\<open>resolve(t)\<close>: same result and same store, for any context and fuel.
  When that container holds neither for \<open>t\<close> (and \<open>t\<close> is not under construction),
  \<^verbatim>\<open>resolve(l)\<close> asks the parent for \<open>l\<close>, not for \<open>t\<close>, and without parent throws the
  \<^verbatim>\<open>UnresolvedDependencyError\<close> of \<open>l\<close>: a binding of \<open>t\<close> in an ancestor is not found through
  the alias. After a further \<^verbatim>\<open>alias(l2, l)\<close>, where \<open>l\<close> itself has no binding and no
  instance, \<^verbatim>\<open>resolve(l2)\<close> stops at \<open>l\<close>: when no ancestor provides \<open>l2\<close>, it throws the
  \<^verbatim>\<open>UnresolvedDependencyError\<close> of \<open>l2\<close>.
\<close>

theorem alias_resolves_one_hop:
  fixes w :: world and cid :: nat and l t l2 :: bindable
  defines "cf1 \<equiv> cfg (alias_c cid l t w)"
    and "cf2 \<equiv> cfg (alias_c cid l2 l (alias_c cid l t w))"
  shows "(is_name l \<and> \<not> falsy_bindable t \<and> getAlias (cfg w cid) t = t \<and>
          (instances (conts s cid) t \<noteq> None \<or> map_of (bindings (cfg w cid)) t \<noteq> None)
          \<longrightarrow> resolve I n cf1 cid l ctx s = resolve I n cf1 cid t ctx s) \<and>
         (is_name l \<and> \<not> falsy_bindable t \<and>
          instances (conts s cid) t = None \<and> map_of (bindings (cfg w cid)) t = None \<and>
          t \<notin> set (resolvingStack (conts s cid))
          \<longrightarrow> resolve I (Suc n) cf1 cid l ctx s =
                (case parent (cfg w cid) of
                   None \<Rightarrow> Some (Inl (UnresolvedDependencyError l), s)
                 | Some p \<Rightarrow> finally_pop cid (resolve I n cf1 p l None (push cid t s)))) \<and>
         (is_name l2 \<and> \<not> falsy_bindable l \<and>
          instances (conts s cid) l = None \<and> map_of (bindings (cfg w cid)) l = None \<and>
          l \<notin> set (resolvingStack (conts s cid)) \<and>
          is_chain cf2 cid (cid # ps) \<and> distinct (cid # ps) \<and>
          (\<forall>d\<in>set ps. \<not> provides cf2 s d l2 \<and> l2 \<notin> set (resolvingStack (conts s d)))
          \<longrightarrow> resolve I (Suc (length ps + k)) cf2 cid l2 ctx s =
                Some (Inl (UnresolvedDependencyError l2), s))"
proof (intro conjI impI)
  assume h: "is_name l \<and> \<not> falsy_bindable t \<and> getAlias (cfg w cid) t = t \<and>
          (instances (conts s cid) t \<noteq> None \<or> map_of (bindings (cfg w cid)) t \<noteq> None)"
  have g1: "getAlias (cf1 cid) l = t"
    using h by (simp add: cf1_def cfg_alias_c getAlias_Some)
  have g2: "getAlias (cf1 cid) t = t"
  proof (cases "t = l")
    case True
    with g1 show ?thesis by simp
  next
    case False
    with h show ?thesis by (simp add: cf1_def cfg_alias_c getAlias_alias_other)
  qed
  have "instances (conts s cid) t \<noteq> None \<or> map_of (bindings (cf1 cid)) t \<noteq> None"
    using h by (simp add: cf1_def cfg_alias_c)
  from alias_equivalent [where cf = cf1 and cid = cid, OF g1 g2 this]
  show "resolve I n cf1 cid l ctx s = resolve I n cf1 cid t ctx s" .
next
  assume h: "is_name l \<and> \<not> falsy_bindable t \<and>
          instances (conts s cid) t = None \<and> map_of (bindings (cfg w cid)) t = None \<and>
          t \<notin> set (resolvingStack (conts s cid))"
  have g: "getAlias (cf1 cid) l = t"
    using h by (simp add: cf1_def cfg_alias_c getAlias_Some)
  have b: "map_of (bindings (cf1 cid)) t = None" and p: "parent (cf1 cid) = parent (cfg w cid)"
    using h by (simp_all add: cf1_def cfg_alias_c)
  from h have m: "instances (conts s cid) t = None" "t \<notin> set (resolvingStack (conts s cid))"
    by simp_all
  from alias_delegates_alias [where cf = cf1 and cid = cid, OF g m(1) b m(2)]
  show "resolve I (Suc n) cf1 cid l ctx s =
      (case parent (cfg w cid) of
         None \<Rightarrow> Some (Inl (UnresolvedDependencyError l), s)
       | Some p \<Rightarrow> finally_pop cid (resolve I n cf1 p l None (push cid t s)))"
    by (simp add: p)
next
  assume h: "is_name l2 \<and> \<not> falsy_bindable l \<and>
          instances (conts s cid) l = None \<and> map_of (bindings (cfg w cid)) l = None \<and>
          l \<notin> set (resolvingStack (conts s cid)) \<and>
          is_chain cf2 cid (cid # ps) \<and> distinct (cid # ps) \<and>
          (\<forall>d\<in>set ps. \<not> provides cf2 s d l2 \<and> l2 \<notin> set (resolvingStack (conts s d)))"
  have g: "getAlias (cf2 cid) l2 = l"
    using h by (simp add: cf2_def cfg_alias_c getAlias_Some)
  have b: "map_of (bindings (cf2 cid)) l = None"
    using h by (simp add: cf2_def cfg_alias_c)
  from h have m: "instances (conts s cid) l = None" "l \<notin> set (resolvingStack (conts s cid))"
    and ch: "is_chain cf2 cid (cid # ps)" "distinct (cid # ps)"
      "\<forall>d\<in>set ps. \<not> provides cf2 s d l2 \<and> l2 \<notin> set (resolvingStack (conts s d))"
    by simp_all
  from alias_single_hop [where cf = cf2 and cid = cid, OF g m(1) b m(2) ch]
  show "resolve I (Suc (length ps + k)) cf2 cid l2 ctx s =
      Some (Inl (UnresolvedDependencyError l2), s)" .
qed

text \<open>
  On the container of the example, and on a scope of it that is given the alias while the
  container itself has the binding.
\<close>

theorem alias_resolves_one_hop_witness:
  "is_name (BStr ''L'') \<and> is_name (BStr ''L2'') \<and>
   map_of (bindings (cfg logger_world 0)) (BStr ''Logger'') = Some (bind_binding (new_object None)) \<and>
   is_chain (cfg (alias_c 0 (BStr ''L2'') (BStr ''L'') (alias_c 0 (BStr ''L'') (BStr ''Logger'')
     logger_world))) 0 [0] \<and>
   resolve DIContainer (Suc 0) (cfg (alias_c 0 (BStr ''L'') (BStr ''Logger'') logger_world)) 0
     (BStr ''L'') None (st logger_world) =
   resolve DIContainer (Suc 0) (cfg (alias_c 0 (BStr ''L'') (BStr ''Logger'') logger_world)) 0
     (BStr ''Logger'') None (st logger_world) \<and>
   map_option fst (resolve DIContainer (Suc 0) (cfg (alias_c 0 (BStr ''L'') (BStr ''Logger'')
     logger_world)) 0 (BStr ''L'') None (st logger_world)) = Some (Inr (VObj 0 None)) \<and>
   resolve DIContainer (Suc 0) (cfg (alias_c 0 (BStr ''L2'') (BStr ''L'')
     (alias_c 0 (BStr ''L'') (BStr ''Logger'') logger_world))) 0 (BStr ''L2'') None
     (st logger_world) =
     Some (Inl (UnresolvedDependencyError (BStr ''L2'')), st logger_world) \<and>
   map_of (bindings (cfg (snd (createScope 0 logger_world)) 1)) (BStr ''Logger'') = None \<and>
   parent (cfg (snd (createScope 0 logger_world)) 1) = Some 0 \<and>
   resolve DIContainer (Suc (Suc 0)) (cfg scope_alias_world) 1 (BStr ''L'') None
     (st scope_alias_world) =
     finally_pop 1 (resolve DIContainer (Suc 0) (cfg scope_alias_world) 0 (BStr ''L'') None
       (push 1 (BStr ''Logger'') (st scope_alias_world))) \<and>
   map_option fst (resolve DIContainer (Suc (Suc 0)) (cfg scope_alias_world) 1 (BStr ''L'') None
     (st scope_alias_world)) = Some (Inl (UnresolvedDependencyError (BStr ''L'')))"
proof -
  let ?w = logger_world
  let ?v = "snd (createScope 0 logger_world)"
  have n: "is_name (BStr ''L'')" "is_name (BStr ''L2'')" by (simp_all add: is_name_def)
  have f: "\<not> falsy_bindable (BStr ''Logger'')" "\<not> falsy_bindable (BStr ''L'')"
    by (simp_all add: falsy_bindable_def)
  have g: "getAlias (cfg ?w 0) (BStr ''Logger'') = BStr ''Logger''"
    by (simp add: logger_world_def world_defs getAlias_def)
  have b: "map_of (bindings (cfg ?w 0)) (BStr ''Logger'') = Some (bind_binding (new_object None))"
    by (simp add: logger_world_def world_defs)
  have l: "instances (conts (st ?w) 0) (BStr ''L'') = None"
      "map_of (bindings (cfg ?w 0)) (BStr ''L'') = None"
      "BStr ''L'' \<notin> set (resolvingStack (conts (st ?w) 0))"
    by (simp_all add: logger_world_def world_defs)
  have c: "is_chain (cfg (alias_c 0 (BStr ''L2'') (BStr ''L'') (alias_c 0 (BStr ''L'')
      (BStr ''Logger'') ?w))) 0 [0]"
    by (simp add: logger_world_def world_defs alias_c_def)
  have r: "map_option fst (resolve DIContainer (Suc 0) (cfg (alias_c 0 (BStr ''L'')
      (BStr ''Logger'') ?w)) 0 (BStr ''L'') None (st ?w)) = Some (Inr (VObj 0 None))"
    by (simp add: logger_world_def world_defs alias_c_def run_defs)
  have sc: "instances (conts (st ?v) 1) (BStr ''Logger'') = None"
      "map_of (bindings (cfg ?v 1)) (BStr ''Logger'') = None"
      "BStr ''Logger'' \<notin> set (resolvingStack (conts (st ?v) 1))"
      "parent (cfg ?v 1) = Some 0"
    by (simp_all add: logger_world_def world_defs)
  have sw: "scope_alias_world = alias_c 1 (BStr ''L'') (BStr ''Logger'') ?v"
      "st scope_alias_world = st ?v"
    by (simp_all add: scope_alias_world_def alias_c_def)
  from n f g b l c r
    alias_resolves_one_hop [where w = ?w and cid = 0 and l = "BStr ''L''"
      and t = "BStr ''Logger''" and ?l2.0 = "BStr ''L2''" and s = "st ?w" and I = DIContainer
      and n = "Suc 0" and ctx = None and ps = "[]" and k = 0]
  have one: "resolve DIContainer (Suc 0) (cfg (alias_c 0 (BStr ''L'') (BStr ''Logger'') ?w)) 0
       (BStr ''L'') None (st ?w) =
     resolve DIContainer (Suc 0) (cfg (alias_c 0 (BStr ''L'') (BStr ''Logger'') ?w)) 0
       (BStr ''Logger'') None (st ?w) \<and>
     resolve DIContainer (Suc 0) (cfg (alias_c 0 (BStr ''L2'') (BStr ''L'')
       (alias_c 0 (BStr ''L'') (BStr ''Logger'') ?w))) 0 (BStr ''L2'') None (st ?w) =
       Some (Inl (UnresolvedDependencyError (BStr ''L2'')), st ?w)"
    by simp
  from n f sc
    alias_resolves_one_hop [where w = ?v and cid = 1 and l = "BStr ''L''"
      and t = "BStr ''Logger''" and s = "st ?v" and I = DIContainer
      and n = "Suc 0" and ctx = None, folded sw(1)]
  have two: "resolve DIContainer (Suc (Suc 0)) (cfg scope_alias_world) 1 (BStr ''L'') None
       (st scope_alias_world) =
     finally_pop 1 (resolve DIContainer (Suc 0) (cfg scope_alias_world) 0 (BStr ''L'') None
       (push 1 (BStr ''Logger'') (st scope_alias_world)))"
    by (simp add: sw(2))
  have "map_option fst (finally_pop 1 (resolve DIContainer (Suc 0) (cfg scope_alias_world) 0
      (BStr ''L'') None (push 1 (BStr ''Logger'') (st scope_alias_world)))) =
      Some (Inl (UnresolvedDependencyError (BStr ''L'')))"
    by (simp add: scope_alias_world_def logger_world_def alias_c_def world_defs run_defs)
  with two have three: "map_option fst (resolve DIContainer (Suc (Suc 0)) (cfg scope_alias_world) 1
      (BStr ''L'') None (st scope_alias_world)) = Some (Inl (UnresolvedDependencyError (BStr ''L'')))"
    by simp
  from n b c r one sc two three show ?thesis by simp
qed

text \<open>
  The claim as stated fails for a binding of \<open>Logger\<close> that an ancestor holds: with
  \<^verbatim>\<open>container.bind("Logger", ...)\<close> and \<^verbatim>\<open>scope.alias("L", "Logger")\<close> on a scope of the
  container, \<^verbatim>\<open>scope.resolve("Logger")\<close> returns the logger while \<^verbatim>\<open>scope.resolve("L")\<close> throws
  the \<^verbatim>\<open>UnresolvedDependencyError\<close> of \<open>L\<close>, in both classes.
\<close>

theorem alias_on_scope_counterexample:
  "map_option fst (resolve ContainerTs (Suc (Suc 0)) (cfg scope_alias_world) 1 (BStr ''Logger'')
      None (st scope_alias_world)) = Some (Inr (VObj 0 None)) \<and>
   map_option fst (resolve ContainerTs (Suc (Suc 0)) (cfg scope_alias_world) 1 (BStr ''L'')
      None (st scope_alias_world)) = Some (Inl (UnresolvedDependencyError (BStr ''L''))) \<and>
   map_option fst (resolve DIContainer (Suc (Suc 0)) (cfg scope_alias_world) 1 (BStr ''Logger'')
      None (st scope_alias_world)) = Some (Inr (VObj 0 None)) \<and>
   map_option fst (resolve DIContainer (Suc (Suc 0)) (cfg scope_alias_world) 1 (BStr ''L'')
      None (st scope_alias_world)) = Some (Inl (UnresolvedDependencyError (BStr ''L'')))"
  by (simp add: scope_alias_world_def logger_world_def alias_c_def world_defs run_defs)

section \<open>Tags\<close>

lemma tags_tag:
  "tags (cfg (tag cid xs t w) cid) t =
     Some ((case tags (cfg w cid) t of None \<Rightarrow> [] | Some ys \<Rightarrow> ys) @ xs)"
  by (simp add: tag_def)

text \<open>
  C6, as amended. After \<^verbatim>\<open>tag([a, b], t)\<close> on a tag without members (never tagged, or
  tagged with the empty list), \<^verbatim>\<open>tagged(t)\<close> resolves \<open>a\<close>, then \<open>b\<close> in the store \<open>a\<close> left, and
  returns the two instances in that order, in container.ts, in \<^verbatim>\<open>DIContainer\<close> and in
  mod.ts. On a tag \<open>u\<close> without members the \<^verbatim>\<open>Container\<close> of mod.ts throws \<^verbatim>\<open>InvalidTagError\<close>,
  while the \<^verbatim>\<open>Container\<close> of container.ts and \<^verbatim>\<open>DIContainer\<close> return the empty list.
\<close>

theorem tagged_in_order_and_empty_tag:
  fixes w :: world and cid :: nat and a b :: bindable and t :: string
  defines "cf \<equiv> cfg (tag cid [a, b] t w)"
  shows "((tags (cfg w cid) t = None \<or> tags (cfg w cid) t = Some []) \<and>
          resolve I n cf cid a None s = Some (Inr va, s1) \<and>
          resolve I n cf cid b None s1 = Some (Inr vb, s2)
          \<longrightarrow> tagged I n cf cid t s = Some (Inr [va, vb], s2)) \<and>
         ((tgs t = None \<or> tgs t = Some []) \<and>
          self a None s = Some (Inr va, s1) \<and> self b None s1 = Some (Inr vb, s2)
          \<longrightarrow> mod_tagged self (mod_tag [a, b] t tgs) t s = Some (Inr [va, vb], s2)) \<and>
         (tags (cfg w cid) u = None \<or> tags (cfg w cid) u = Some []
          \<longrightarrow> tagged I n (cfg w) cid u s = Some (Inr [], s)) \<and>
         (tgs u = None \<or> tgs u = Some []
          \<longrightarrow> mod_tagged self tgs u s = Some (Inl (InvalidTagError u), s))"
proof (intro conjI impI)
  assume h: "(tags (cfg w cid) t = None \<or> tags (cfg w cid) t = Some []) \<and>
          resolve I n cf cid a None s = Some (Inr va, s1) \<and>
          resolve I n cf cid b None s1 = Some (Inr vb, s2)"
  then have "tags (cf cid) t = Some [a, b]"
    by (auto simp: cf_def tags_tag)
  with h show "tagged I n cf cid t s = Some (Inr [va, vb], s2)"
    by (simp add: tagged_def)
next
  assume "(tgs t = None \<or> tgs t = Some []) \<and>
          self a None s = Some (Inr va, s1) \<and> self b None s1 = Some (Inr vb, s2)"
  then show "mod_tagged self (mod_tag [a, b] t tgs) t s = Some (Inr [va, vb], s2)"
    by (auto simp: mod_tagged_def mod_tag_def)
next
  assume "tags (cfg w cid) u = None \<or> tags (cfg w cid) u = Some []"
  then show "tagged I n (cfg w) cid u s = Some (Inr [], s)"
    by (auto simp: tagged_def)
next
  assume "tgs u = None \<or> tgs u = Some []"
  then show "mod_tagged self tgs u s = Some (Inl (InvalidTagError u), s)"
    by (auto simp: mod_tagged_def)
qed

theorem tagged_witness:
  "tags (cfg (bind_plain 0 (BStr ''CSVReport'') (constant_factory (VStr ''CSV Report''))
         (bind_plain 0 (BStr ''PDFReport'') (constant_factory (VStr ''PDF Report'')) new_world)) 0)
     ''reports'' = None \<and>
   tagged ContainerTs (Suc 0) (cfg reports_world) 0 ''reports'' (st reports_world) =
     Some (Inr [VStr ''PDF Report'', VStr ''CSV Report''], st reports_world) \<and>
   tags (cfg reports_world 0) ''nonexistent-tag'' = None \<and>
   tagged ContainerTs (Suc 0) (cfg reports_world) 0 ''nonexistent-tag'' (st reports_world) =
     Some (Inr [], st reports_world) \<and>
   mod_tagged (resolve ContainerTs (Suc 0) (cfg reports_world) 0) Map.empty ''nonexistent-tag''
     (st reports_world) = Some (Inl (InvalidTagError ''nonexistent-tag''), st reports_world) \<and>
   mod_tagged (resolve ContainerTs (Suc 0) (cfg reports_world) 0)
     (mod_tag [BStr ''PDFReport'', BStr ''CSVReport''] ''reports'' Map.empty) ''reports''
     (st reports_world) = Some (Inr [VStr ''PDF Report'', VStr ''CSV Report''], st reports_world)"
proof -
  let ?w0 = "bind_plain 0 (BStr ''CSVReport'') (constant_factory (VStr ''CSV Report''))
         (bind_plain 0 (BStr ''PDFReport'') (constant_factory (VStr ''PDF Report'')) new_world)"
  let ?s = "st reports_world"
  have w: "reports_world = tag 0 [BStr ''PDFReport'', BStr ''CSVReport''] ''reports'' ?w0"
    by (simp add: reports_world_def)
  have t0: "tags (cfg ?w0 0) ''reports'' = None"
    by (simp add: world_defs)
  have t1: "tags (cfg reports_world 0) ''nonexistent-tag'' = None"
    by (simp add: reports_world_def tag_def world_defs)
  have ra: "resolve ContainerTs (Suc 0) (cfg reports_world) 0 (BStr ''PDFReport'') None ?s =
      Some (Inr (VStr ''PDF Report''), ?s)"
    by (simp add: reports_world_def tag_def world_defs run_defs)
  have rb: "resolve ContainerTs (Suc 0) (cfg reports_world) 0 (BStr ''CSVReport'') None ?s =
      Some (Inr (VStr ''CSV Report''), ?s)"
    by (simp add: reports_world_def tag_def world_defs run_defs)
  from t0 t1 ra rb
    tagged_in_order_and_empty_tag [where w = ?w0 and cid = 0 and a = "BStr ''PDFReport''"
      and b = "BStr ''CSVReport''" and t = "''reports''" and I = ContainerTs and n = "Suc 0"
      and s = ?s and ?s1.0 = ?s and ?s2.0 = ?s and va = "VStr ''PDF Report''"
      and vb = "VStr ''CSV Report''" and tgs = Map.empty
      and self = "resolve ContainerTs (Suc 0) (cfg reports_world) 0"
      and u = "''nonexistent-tag''", folded w]
    tagged_in_order_and_empty_tag [where w = reports_world and cid = 0
      and u = "''nonexistent-tag''" and I = ContainerTs and n = "Suc 0" and s = ?s
      and tgs = Map.empty]
  show ?thesis by simp
qed

text \<open>
  The claim as stated fails on container.ts and on \<^verbatim>\<open>DIContainer\<close>: on a new container
  \<^verbatim>\<open>tagged('nonexistent-tag')\<close> returns the empty list.
\<close>

theorem tagged_empty_counterexample:
  "tagged ContainerTs (Suc 0) (cfg new_world) 0 ''nonexistent-tag'' (st new_world) =
     Some (Inr [], st new_world) \<and>
   tagged DIContainer (Suc 0) (cfg new_world) 0 ''nonexistent-tag'' (st new_world) =
     Some (Inr [], st new_world)"
  by (simp add: tagged_def new_world_def empty_container_def)

section \<open>Contextual bindings\<close>

lemma applyMiddleware_Nil: "applyMiddleware [] v = v"
  by (simp add: applyMiddleware_def)

lemma resolve_with_override:
  assumes i: "instances (conts s cid) (getAlias (cf cid) x) = None"
      "getAlias (cf cid) x \<notin> set (resolvingStack (conts s cid))"
      "map_of (bindings (cf cid)) (getAlias (cf cid) x) = Some b"
    and nc: "singleton_instance b (binding_instance (conts s cid) (getAlias (cf cid) x)) = None"
    and ns: "\<not> (I = DIContainer \<and> lifetime b = Scoped)"
    and cx: "\<not> falsy_bindable consumer"
      "find_contextual (cf cid) consumer (getAlias (cf cid) x) = Some cb"
    and g: "run_giver (give cb) cid (resolve I n cf cid) (push cid (getAlias (cf cid) x) s)
        = Some (Inr v, s2)"
  shows "resolve I (Suc n) cf cid x (Some consumer) s =
     finally_pop cid
       (bind_c
          (bind_c (if falsy v then resolver b cid (resolve I n cf cid) (Some consumer)
                   else return_c v)
             (\<lambda>inst s'. Some (Inr inst,
                if lifetime b = Singleton
                then cache_singleton cid (getAlias (cf cid) x) inst s' else s')))
          (\<lambda>inst. return_c (applyMiddleware (middlewares (cf cid)) inst))
          s2)"
proof -
  from ns have ns': "(I = DIContainer \<and> lifetime b = Scoped) = False" by simp
  have "lifetime_dispatch I (cf cid) cid (resolve I n cf cid) b (getAlias (cf cid) x)
      (Some consumer) (push cid (getAlias (cf cid) x) s) =
      bind_c (if falsy v then resolver b cid (resolve I n cf cid) (Some consumer)
                   else return_c v)
             (\<lambda>inst s'. Some (Inr inst,
                if lifetime b = Singleton
                then cache_singleton cid (getAlias (cf cid) x) inst s' else s')) s2"
    using nc cx g
    by (simp add: lifetime_dispatch_def binding_instance_push contextual_instance_def
        bind_c_def ns')
  then show ?thesis
    using resolve_bound [where cf = cf and cid = cid and I = I and n = n
        and ctx = "Some consumer", OF i]
    by (simp add: bind_c_def)
qed

lemma resolve_without_context:
  assumes i: "instances (conts s cid) (getAlias (cf cid) x) = None"
      "getAlias (cf cid) x \<notin> set (resolvingStack (conts s cid))"
      "map_of (bindings (cf cid)) (getAlias (cf cid) x) = Some b"
    and nc: "singleton_instance b (binding_instance (conts s cid) (getAlias (cf cid) x)) = None"
    and ns: "\<not> (I = DIContainer \<and> lifetime b = Scoped)"
  shows "resolve I (Suc n) cf cid x None s =
     finally_pop cid
       (bind_c
          (bind_c (resolver b cid (resolve I n cf cid) None)
             (\<lambda>inst s'. Some (Inr inst,
                if lifetime b = Singleton
                then cache_singleton cid (getAlias (cf cid) x) inst s' else s')))
          (\<lambda>inst. return_c (applyMiddleware (middlewares (cf cid)) inst))
          (push cid (getAlias (cf cid) x) s))"
proof -
  from ns have ns': "(I = DIContainer \<and> lifetime b = Scoped) = False" by simp
  have "lifetime_dispatch I (cf cid) cid (resolve I n cf cid) b (getAlias (cf cid) x)
      None (push cid (getAlias (cf cid) x) s) =
      bind_c (resolver b cid (resolve I n cf cid) None)
             (\<lambda>inst s'. Some (Inr inst,
                if lifetime b = Singleton
                then cache_singleton cid (getAlias (cf cid) x) inst s' else s'))
        (push cid (getAlias (cf cid) x) s)"
    using nc
    by (simp add: lifetime_dispatch_def binding_instance_push contextual_instance_def
        bind_c_def return_c_def ns')
  then show ?thesis
    using resolve_bound [where cf = cf and cid = cid and I = I and n = n
        and ctx = None, OF i]
    by (simp add: bind_c_def)
qed

text \<open>
  C10. Let the contextual binding found for a truthy consumer and the dependency give a
  falsy value \<open>v\<close> (the giver returned it, or it is the value given), the binding of the
  dependency not being a cached singleton nor, in \<^verbatim>\<open>DIContainer\<close>, scoped. Then
  \<^verbatim>\<open>resolve(dep, consumer)\<close> is what \<^verbatim>\<open>this.build(binding, context)\<close> makes in the store the
  giver left: it throws what the resolver of the binding throws, and otherwise returns
  the instance the resolver built (cached if the binding is a singleton, handed to the
  middleware chain), not \<open>v\<close>. Neither class has an \<^verbatim>\<open>InvalidContextualBindingError\<close> to throw
  here.
\<close>

theorem contextual_falsy_falls_back:
  assumes i: "instances (conts s cid) (getAlias (cf cid) dep) = None"
      "getAlias (cf cid) dep \<notin> set (resolvingStack (conts s cid))"
      "map_of (bindings (cf cid)) (getAlias (cf cid) dep) = Some b"
    and nc: "singleton_instance b (binding_instance (conts s cid) (getAlias (cf cid) dep)) = None"
    and ns: "\<not> (I = DIContainer \<and> lifetime b = Scoped)"
    and cx: "\<not> falsy_bindable consumer"
      "find_contextual (cf cid) consumer (getAlias (cf cid) dep) = Some cb"
    and g: "run_giver (give cb) cid (resolve I n cf cid) (push cid (getAlias (cf cid) dep) s)
        = Some (Inr v, s2)"
    and f: "falsy v"
  shows "resolve I (Suc n) cf cid dep (Some consumer) s =
     (case resolver b cid (resolve I n cf cid) (Some consumer) s2 of
        None \<Rightarrow> None
      | Some (Inl e, s3) \<Rightarrow> Some (Inl e, pop cid s3)
      | Some (Inr d, s3) \<Rightarrow>
          Some (Inr (applyMiddleware (middlewares (cf cid)) d),
            pop cid (if lifetime b = Singleton
                     then cache_singleton cid (getAlias (cf cid) dep) d s3 else s3)))"
  using f resolve_with_override [where cf = cf and cid = cid, OF i nc ns cx g]
  by (simp add: finally_pop_def bind_c_def return_c_def split: option.splits sum.splits)


lemma find_snoc_None:
  "List.find P xs = None \<Longrightarrow> List.find P (xs @ [y]) = (if P y then Some y else None)"
  by (induction xs) (auto split: if_splits)

lemma find_contextual_give:
  assumes "find_contextual (cfg w cid) consumer dep = None"
  shows "find_contextual (cfg (when_needs_give cid consumer dep g w) cid) consumer dep =
     Some \<lparr>when_c = consumer, need = dep, give = g\<rparr>"
  using assms
  by (auto simp: find_contextual_def when_needs_give_def find_snoc_None split: option.splits)

lemma cfg_when_needs_give:
  "bindings (cfg (when_needs_give cid consumer dep g w) cid) = bindings (cfg w cid) \<and>
   aliases (cfg (when_needs_give cid consumer dep g w) cid) = aliases (cfg w cid) \<and>
   middlewares (cfg (when_needs_give cid consumer dep g w) cid) = middlewares (cfg w cid)"
  by (simp add: when_needs_give_def)

lemma getAlias_when_needs_give:
  "getAlias (cfg (when_needs_give cid consumer dep g w) cid) x = getAlias (cfg w cid) x"
  by (cases x) (simp_all add: getAlias_def cfg_when_needs_give)

text \<open>
  C7. Let \<^verbatim>\<open>when(consumer).needs(dep).give(V)\<close> be the first override registered for that pair,
  the consumer truthy, \<open>dep\<close> not aliased, not registered as an instance and not under
  construction, its binding not a cached singleton nor, in \<^verbatim>\<open>DIContainer\<close>, scoped. For a
  truthy value \<open>v\<close>, given as it is or returned by the function given, the code does what
  the claim says: \<^verbatim>\<open>resolve(dep, consumer)\<close> yields \<open>v\<close> (through the middleware chain, cached
  if the binding is a singleton), and \<^verbatim>\<open>resolve(dep)\<close> yields what the resolver of the default
  binding builds, whatever was given. For a falsy value \<open>v\<close> given as it is (\<^verbatim>\<open>0\<close>, \<^verbatim>\<open>''\<close>,
  \<^verbatim>\<open>false\<close>, \<^verbatim>\<open>null\<close>) it does not: \<^verbatim>\<open>if (!instance)\<close> takes the value given for none given, and
  \<^verbatim>\<open>resolve(dep, consumer)\<close> yields what the default binding builds, whereas
  \<^verbatim>\<open>resolveWithContext(dep, consumer)\<close> of the same class returns \<open>v\<close>, as it does for every
  value.
\<close>

theorem contextual_override_given:
  fixes w :: world and cid :: nat and consumer dep :: bindable
  defines "cf \<equiv> (\<lambda>g. cfg (when_needs_give cid consumer dep g w))"
    and "mws \<equiv> middlewares (cfg w cid)"
  assumes first: "find_contextual (cfg w cid) consumer dep = None"
    and cx: "\<not> falsy_bindable consumer"
    and al: "getAlias (cfg w cid) dep = dep"
    and i: "instances (conts s cid) dep = None" "dep \<notin> set (resolvingStack (conts s cid))"
    and b: "map_of (bindings (cfg w cid)) dep = Some b"
    and nc: "singleton_instance b (binding_instance (conts s cid) dep) = None"
    and ns: "\<not> (I = DIContainer \<and> lifetime b = Scoped)"
  shows "resolveWithContext I n (cf (GiveVal v)) cid dep consumer s = Some (Inr v, s) \<and>
     (\<not> falsy v \<longrightarrow>
        resolve I (Suc n) (cf (GiveVal v)) cid dep (Some consumer) s =
          Some (Inr (applyMiddleware mws v),
            if lifetime b = Singleton then cache_singleton cid dep v s else s)) \<and>
     (falsy v \<and>
      resolver b cid (resolve I n (cf (GiveVal v)) cid) (Some consumer) (push cid dep s) =
        Some (Inr dv, s3) \<longrightarrow>
        resolve I (Suc n) (cf (GiveVal v)) cid dep (Some consumer) s =
          Some (Inr (applyMiddleware mws dv),
            pop cid (if lifetime b = Singleton then cache_singleton cid dep dv s3 else s3))) \<and>
     (gf cid (resolve I n (cf (GiveFn gf)) cid) (push cid dep s) = Some (Inr fv, s2) \<and>
      \<not> falsy fv \<longrightarrow>
        resolve I (Suc n) (cf (GiveFn gf)) cid dep (Some consumer) s =
          Some (Inr (applyMiddleware mws fv),
            pop cid (if lifetime b = Singleton then cache_singleton cid dep fv s2 else s2))) \<and>
     (resolver b cid (resolve I n (cf g) cid) None (push cid dep s) = Some (Inr dv0, s4) \<longrightarrow>
        resolve I (Suc n) (cf g) cid dep None s =
          Some (Inr (applyMiddleware mws dv0),
            pop cid (if lifetime b = Singleton then cache_singleton cid dep dv0 s4 else s4)))"
proof -
  have ga: "getAlias (cf g cid) dep = dep" for g
    using al by (simp add: cf_def getAlias_when_needs_give)
  have b': "map_of (bindings (cf g cid)) (getAlias (cf g cid) dep) = Some b" for g
    using b by (simp add: ga) (simp add: cf_def cfg_when_needs_give)
  have mw: "middlewares (cf g cid) = mws" for g
    by (simp add: cf_def mws_def cfg_when_needs_give)
  have fc: "find_contextual (cf g cid) consumer dep =
      Some \<lparr>when_c = consumer, need = dep, give = g\<rparr>" for g
    using first by (simp add: cf_def find_contextual_give)
  have fc': "find_contextual (cf g cid) consumer (getAlias (cf g cid) dep) =
      Some \<lparr>when_c = consumer, need = dep, give = g\<rparr>" for g
    by (simp add: ga fc)
  have i': "instances (conts s cid) (getAlias (cf g cid) dep) = None"
      "getAlias (cf g cid) dep \<notin> set (resolvingStack (conts s cid))" for g
    using i by (simp_all add: ga)
  have nc': "singleton_instance b (binding_instance (conts s cid) (getAlias (cf g cid) dep)) = None"
    for g using nc by (simp add: ga)
  have gv: "run_giver (give \<lparr>when_c = consumer, need = dep, give = GiveVal v\<rparr>) cid
      (resolve I n (cf (GiveVal v)) cid) (push cid (getAlias (cf (GiveVal v) cid) dep) s) =
      Some (Inr v, push cid dep s)"
    by (simp add: ga run_giver_def return_c_def)
  have sibling: "resolveWithContext I n (cf (GiveVal v)) cid dep consumer s = Some (Inr v, s)"
    by (simp add: resolveWithContext_def fc run_giver_def return_c_def)
  have truthy: "resolve I (Suc n) (cf (GiveVal v)) cid dep (Some consumer) s =
      Some (Inr (applyMiddleware mws v),
        if lifetime b = Singleton then cache_singleton cid dep v s else s)"
    if "\<not> falsy v"
    using that resolve_with_override [where cf = "cf (GiveVal v)" and cid = cid,
        OF i' b' nc' ns cx fc' gv]
    by (simp add: ga mw finally_pop_def bind_c_def return_c_def pop_push pop_cache_push)
  have falsy: "resolve I (Suc n) (cf (GiveVal v)) cid dep (Some consumer) s =
      Some (Inr (applyMiddleware mws dv),
        pop cid (if lifetime b = Singleton then cache_singleton cid dep dv s3 else s3))"
    if "falsy v" and "resolver b cid (resolve I n (cf (GiveVal v)) cid) (Some consumer)
        (push cid dep s) = Some (Inr dv, s3)"
    using that resolve_with_override [where cf = "cf (GiveVal v)" and cid = cid,
        OF i' b' nc' ns cx fc' gv]
    by (simp add: ga mw finally_pop_def bind_c_def return_c_def)
  have fn: "resolve I (Suc n) (cf (GiveFn gf)) cid dep (Some consumer) s =
      Some (Inr (applyMiddleware mws fv),
        pop cid (if lifetime b = Singleton then cache_singleton cid dep fv s2 else s2))"
    if r: "gf cid (resolve I n (cf (GiveFn gf)) cid) (push cid dep s) = Some (Inr fv, s2)"
      and t: "\<not> falsy fv"
  proof -
    have "run_giver (give \<lparr>when_c = consumer, need = dep, give = GiveFn gf\<rparr>) cid
        (resolve I n (cf (GiveFn gf)) cid) (push cid (getAlias (cf (GiveFn gf) cid) dep) s) =
        Some (Inr fv, s2)"
      using r by (simp add: ga run_giver_def)
    from t resolve_with_override [where cf = "cf (GiveFn gf)" and cid = cid,
        OF i' b' nc' ns cx fc' this]
    show ?thesis by (simp add: ga mw finally_pop_def bind_c_def return_c_def)
  qed
  have plain: "resolve I (Suc n) (cf g) cid dep None s =
      Some (Inr (applyMiddleware mws dv0),
        pop cid (if lifetime b = Singleton then cache_singleton cid dep dv0 s4 else s4))"
    if "resolver b cid (resolve I n (cf g) cid) None (push cid dep s) = Some (Inr dv0, s4)"
    using that resolve_without_context [where cf = "cf g" and cid = cid and n = n,
        OF i' b' nc' ns]
    by (simp add: ga mw finally_pop_def bind_c_def return_c_def)
  from sibling truthy falsy fn plain show ?thesis by blast
qed

text \<open>
  On the container of the example: \<^verbatim>\<open>give('local')\<close>, \<^verbatim>\<open>give(() => 'made')\<close> and \<^verbatim>\<open>give(0)\<close>.
\<close>

theorem contextual_override_witness:
  "find_contextual (cfg config_world 0) (BStr ''Service'') (BStr ''config'') = None \<and>
   map_of (bindings (cfg config_world 0)) (BStr ''config'') =
     Some (bind_binding (constant_factory (VStr ''default''))) \<and>
   resolve DIContainer (Suc 0) (cfg (override_world (GiveVal (VStr ''local''))))
     0 (BStr ''config'') (Some (BStr ''Service'')) (st config_world) =
     Some (Inr (VStr ''local''), st config_world) \<and>
   resolve DIContainer (Suc 0) (cfg (override_world (GiveFn (\<lambda>c self. return_c (VStr ''made'')))))
     0 (BStr ''config'') (Some (BStr ''Service'')) (st config_world) =
     Some (Inr (VStr ''made''), st config_world) \<and>
   resolve DIContainer (Suc 0) (cfg (override_world (GiveVal (VStr ''local''))))
     0 (BStr ''config'') None (st config_world) =
     Some (Inr (VStr ''default''), st config_world) \<and>
   falsy (VNum 0) \<and>
   resolveWithContext DIContainer 0 (cfg (override_world (GiveVal (VNum 0))))
     0 (BStr ''config'') (BStr ''Service'') (st config_world) =
     Some (Inr (VNum 0), st config_world) \<and>
   resolve DIContainer (Suc 0) (cfg (override_world (GiveVal (VNum 0))))
     0 (BStr ''config'') (Some (BStr ''Service'')) (st config_world) =
     Some (Inr (VStr ''default''), st config_world)"
proof -
  let ?gf = "\<lambda>(c::nat) (self::resolver). (return_c (VStr ''made'') :: val comp)"
  let ?b = "bind_binding (constant_factory (VStr ''default''))"
  let ?s = "st config_world"
  have first: "find_contextual (cfg config_world 0) (BStr ''Service'') (BStr ''config'') = None"
    by (simp add: config_world_def world_defs find_contextual_def)
  have cx: "\<not> falsy_bindable (BStr ''Service'')" by (simp add: falsy_bindable_def)
  have al: "getAlias (cfg config_world 0) (BStr ''config'') = BStr ''config''"
    by (simp add: config_world_def world_defs getAlias_def)
  have i: "instances (conts ?s 0) (BStr ''config'') = None"
      "BStr ''config'' \<notin> set (resolvingStack (conts ?s 0))"
    by (simp_all add: config_world_def world_defs)
  have b: "map_of (bindings (cfg config_world 0)) (BStr ''config'') = Some ?b"
    by (simp add: config_world_def world_defs)
  have nc: "singleton_instance ?b (binding_instance (conts ?s 0) (BStr ''config'')) = None"
    by (simp add: config_world_def world_defs singleton_instance_def)
  have ns: "\<not> (DIContainer = DIContainer \<and> lifetime ?b = Scoped)"
    by (simp add: bind_binding_def)
  have mw: "middlewares (cfg config_world 0) = []"
    by (simp add: config_world_def world_defs)
  have lt: "lifetime ?b = Transient" by (simp add: bind_binding_def)
  have d: "resolver ?b 0 self ctx s' = Some (Inr (VStr ''default''), s')" for self ctx s'
    by (simp add: bind_binding_def constant_factory_def)
  have t: "\<not> falsy (VStr ''local'')" "\<not> falsy (VStr ''made'')" "falsy (VNum 0)" by simp_all
  from contextual_override_given [where w = config_world and cid = 0 and I = DIContainer
      and n = 0 and v = "VStr ''local''" and gf = ?gf and fv = "VStr ''made''"
      and ?s2.0 = "push 0 (BStr ''config'') ?s" and g = "GiveVal (VStr ''local'')"
      and ?dv0.0 = "VStr ''default''" and ?s4.0 = "push 0 (BStr ''config'') ?s",
      OF first cx al i b nc ns] t d
  have one: "resolve DIContainer (Suc 0) (cfg (override_world (GiveVal (VStr ''local''))))
       0 (BStr ''config'') (Some (BStr ''Service'')) ?s = Some (Inr (VStr ''local''), ?s) \<and>
     resolve DIContainer (Suc 0) (cfg (override_world (GiveFn ?gf)))
       0 (BStr ''config'') (Some (BStr ''Service'')) ?s = Some (Inr (VStr ''made''), ?s) \<and>
     resolve DIContainer (Suc 0) (cfg (override_world (GiveVal (VStr ''local''))))
       0 (BStr ''config'') None ?s = Some (Inr (VStr ''default''), ?s)"
    by (simp add: override_world_def mw lt pop_push applyMiddleware_Nil return_c_def)
  from contextual_override_given [where w = config_world and cid = 0 and I = DIContainer
      and n = 0 and v = "VNum 0" and dv = "VStr ''default''"
      and ?s3.0 = "push 0 (BStr ''config'') ?s", OF first cx al i b nc ns] t d
  have two: "resolveWithContext DIContainer 0 (cfg (override_world (GiveVal (VNum 0))))
       0 (BStr ''config'') (BStr ''Service'') ?s = Some (Inr (VNum 0), ?s) \<and>
     resolve DIContainer (Suc 0) (cfg (override_world (GiveVal (VNum 0))))
       0 (BStr ''config'') (Some (BStr ''Service'')) ?s = Some (Inr (VStr ''default''), ?s)"
    by (simp add: override_world_def mw lt pop_push applyMiddleware_Nil)
  from first b one two t(3) show ?thesis by simp
qed

text \<open>
  The input at which the code leaves the claim: after \<^verbatim>\<open>give(0)\<close>,
  \<^verbatim>\<open>resolve('config', 'Service')\<close> yields the product of the default binding in both classes,
  and \<^verbatim>\<open>resolveWithContext('config', 'Service')\<close> yields 0.
\<close>

theorem contextual_override_failing_input:
  "map_option fst (resolve ContainerTs (Suc 0) (cfg (override_world (GiveVal (VNum 0)))) 0
      (BStr ''config'') (Some (BStr ''Service'')) (st config_world)) = Some (Inr (VStr ''default'')) \<and>
   map_option fst (resolve DIContainer (Suc 0) (cfg (override_world (GiveVal (VNum 0)))) 0
      (BStr ''config'') (Some (BStr ''Service'')) (st config_world)) = Some (Inr (VStr ''default'')) \<and>
   map_option fst (resolveWithContext ContainerTs (Suc 0) (cfg (override_world (GiveVal (VNum 0)))) 0
      (BStr ''config'') (BStr ''Service'') (st config_world)) = Some (Inr (VNum 0)) \<and>
   map_option fst (resolveWithContext DIContainer (Suc 0) (cfg (override_world (GiveVal (VNum 0)))) 0
      (BStr ''config'') (BStr ''Service'') (st config_world)) = Some (Inr (VNum 0))"
  by (simp add: override_world_def config_world_def when_needs_give_def world_defs run_defs
      resolveWithContext_def)

theorem contextual_falsy_witness:
  "find_contextual (cfg (override_world (GiveFn (\<lambda>c self. return_c VUndefined))) 0)
     (BStr ''Service'') (BStr ''config'') =
     Some \<lparr>when_c = BStr ''Service'', need = BStr ''config'',
       give = GiveFn (\<lambda>c self. return_c VUndefined)\<rparr> \<and>
   falsy VUndefined \<and>
   resolve ContainerTs (Suc 0) (cfg (override_world (GiveFn (\<lambda>c self. return_c VUndefined))))
     0 (BStr ''config'') (Some (BStr ''Service'')) (st config_world) =
     Some (Inr (VStr ''default''), st config_world)"
proof -
  let ?g = "GiveFn (\<lambda>c self. return_c VUndefined)"
  let ?b = "bind_binding (constant_factory (VStr ''default''))"
  let ?s = "st config_world"
  let ?cf = "cfg (override_world ?g)"
  let ?cb = "\<lparr>when_c = BStr ''Service'', need = BStr ''config'', give = ?g\<rparr>"
  have ga: "getAlias (?cf 0) (BStr ''config'') = BStr ''config''"
    by (simp add: override_world_def config_world_def when_needs_give_def world_defs getAlias_def)
  have i: "instances (conts ?s 0) (getAlias (?cf 0) (BStr ''config'')) = None"
      "getAlias (?cf 0) (BStr ''config'') \<notin> set (resolvingStack (conts ?s 0))"
    unfolding ga by (simp_all add: config_world_def world_defs)
  have b: "map_of (bindings (?cf 0)) (getAlias (?cf 0) (BStr ''config'')) = Some ?b"
    unfolding ga by (simp add: override_world_def config_world_def when_needs_give_def world_defs)
  have nc: "singleton_instance ?b (binding_instance (conts ?s 0) (getAlias (?cf 0) (BStr ''config'')))
      = None"
    unfolding ga by (simp add: config_world_def world_defs singleton_instance_def)
  have ns: "\<not> (ContainerTs = DIContainer \<and> lifetime ?b = Scoped)" by simp
  have cx: "\<not> falsy_bindable (BStr ''Service'')" by (simp add: falsy_bindable_def)
  have fc: "find_contextual (?cf 0) (BStr ''Service'') (getAlias (?cf 0) (BStr ''config'')) = Some ?cb"
    unfolding ga
    by (simp add: override_world_def config_world_def when_needs_give_def world_defs
        find_contextual_def)
  have g: "run_giver (give ?cb) 0 (resolve ContainerTs 0 ?cf 0)
      (push 0 (getAlias (?cf 0) (BStr ''config'')) ?s) =
      Some (Inr VUndefined, push 0 (BStr ''config'') ?s)"
    unfolding ga by (simp add: run_giver_def return_c_def)
  have f: "falsy VUndefined" by simp
  have mw: "middlewares (?cf 0) = []"
    by (simp add: override_world_def config_world_def when_needs_give_def world_defs)
  from contextual_falsy_falls_back [where cf = ?cf and cid = 0 and I = ContainerTs and n = 0, OF i b nc ns cx fc g f]
    fc [unfolded ga] f
  show ?thesis
    by (simp add: mw bind_binding_def constant_factory_def pop_push applyMiddleware_Nil)
qed

section \<open>Schemas\<close>

lemma cfg_set_binding:
  "bindings (cfg (set_binding cid x b w) cid) = AList.update x b (bindings (cfg w cid)) \<and>
   aliases (cfg (set_binding cid x b w) cid) = aliases (cfg w cid) \<and>
   middlewares (cfg (set_binding cid x b w) cid) = middlewares (cfg w cid)"
  by (simp add: set_binding_def)

lemma getAlias_set_binding:
  "getAlias (cfg (set_binding cid x b w) cid) y = getAlias (cfg w cid) y"
  by (cases y) (simp_all add: getAlias_def cfg_set_binding)

lemma st_set_binding:
  "instances (conts (st (set_binding cid x b w)) cid) = instances (conts (st w) cid) \<and>
   resolvingStack (conts (st (set_binding cid x b w)) cid) = resolvingStack (conts (st w) cid) \<and>
   binding_instance (conts (st (set_binding cid x b w)) cid) x = None"
  by (simp add: set_binding_def)

text \<open>
  C8. \<^verbatim>\<open>bind(x, f, schema)\<close> runs the factory at once. If the product \<open>v\<close> does not conform,
  the call throws the \<^verbatim>\<open>InvalidSchemaError\<close> of \<open>x\<close> with the message of the schema, and no
  binding is registered. If it conforms, the call succeeds and registers the transient
  binding of \<open>f\<close>; a later \<^verbatim>\<open>resolve(x)\<close> (\<open>x\<close> not aliased, not registered as an instance,
  not under construction) runs the factory again and returns its product through the
  middleware chain, without any check at resolution time.
\<close>

theorem schema_checked_bind:
  fixes w :: world and f :: factory and cid :: nat and x :: bindable and s' :: store
  defines "w' \<equiv> set_binding cid x (bind_binding f) (w\<lparr>st := s'\<rparr>)"
  assumes probe: "f cid (resolve I n (cfg w) cid) None (st w) = Some (Inr v, s')"
  shows "(sch v = Inl m \<longrightarrow>
            bind I n cid x f (Some sch) w = Some (Inl (InvalidSchemaError x m), w\<lparr>st := s'\<rparr>)) \<and>
         (sch v = Inr p \<longrightarrow>
            bind I n cid x f (Some sch) w = Some (Inr (), w') \<and>
            map_of (bindings (cfg w' cid)) x = Some (bind_binding f) \<and>
            (getAlias (cfg w cid) x = x \<and> instances (conts s' cid) x = None \<and>
             x \<notin> set (resolvingStack (conts s' cid)) \<and>
             f cid (resolve I k (cfg w') cid) None (push cid x (st w')) = Some (Inr v2, s3)
             \<longrightarrow> resolve I (Suc k) (cfg w') cid x None (st w') =
                   Some (Inr (applyMiddleware (middlewares (cfg w cid)) v2), pop cid s3)))"
proof (intro conjI impI)
  assume "sch v = Inl m"
  with probe show "bind I n cid x f (Some sch) w =
      Some (Inl (InvalidSchemaError x m), w\<lparr>st := s'\<rparr>)"
    by (simp add: bind_def)
next
  assume "sch v = Inr p"
  with probe show "bind I n cid x f (Some sch) w = Some (Inr (), w')"
    by (simp add: bind_def w'_def)
next
  show "map_of (bindings (cfg w' cid)) x = Some (bind_binding f)"
    by (simp add: w'_def cfg_set_binding update_conv')
next
  assume h: "getAlias (cfg w cid) x = x \<and> instances (conts s' cid) x = None \<and>
             x \<notin> set (resolvingStack (conts s' cid)) \<and>
             f cid (resolve I k (cfg w') cid) None (push cid x (st w')) = Some (Inr v2, s3)"
  have ga: "getAlias (cfg w' cid) x = x"
    using h by (simp add: w'_def getAlias_set_binding)
  have b: "map_of (bindings (cfg w' cid)) (getAlias (cfg w' cid) x) = Some (bind_binding f)"
    by (simp add: ga) (simp add: w'_def cfg_set_binding update_conv')
  have i: "instances (conts (st w') cid) (getAlias (cfg w' cid) x) = None"
      "getAlias (cfg w' cid) x \<notin> set (resolvingStack (conts (st w') cid))"
    using h by (simp_all add: ga) (simp_all add: w'_def st_set_binding)
  have nc: "singleton_instance (bind_binding f)
      (binding_instance (conts (st w') cid) (getAlias (cfg w' cid) x)) = None"
    by (simp add: singleton_instance_def bind_binding_def split: option.splits)
  have ns: "\<not> (I = DIContainer \<and> lifetime (bind_binding f) = Scoped)"
    by (simp add: bind_binding_def)
  have mw: "middlewares (cfg w' cid) = middlewares (cfg w cid)"
    by (simp add: w'_def cfg_set_binding)
  from h have r: "resolver (bind_binding f) cid (resolve I k (cfg w') cid) None
      (push cid x (st w')) = Some (Inr v2, s3)"
    by (simp add: bind_binding_def)
  have lt: "lifetime (bind_binding f) = Transient" by (simp add: bind_binding_def)
  from r resolve_without_context [where cf = "cfg w'" and cid = cid and n = k, OF i b nc ns]
  show "resolve I (Suc k) (cfg w') cid x None (st w') =
      Some (Inr (applyMiddleware (middlewares (cfg w cid)) v2), pop cid s3)"
    by (simp add: ga mw lt finally_pop_def bind_c_def return_c_def)
qed


theorem schema_checked_bind_witness:
  "constant_factory (VNum 123) 0 (resolve DIContainer 0 (cfg new_world) 0) None (st new_world) =
     Some (Inr (VNum 123), st new_world) \<and>
   string_schema (VNum 123) = Inl ''Expected string'' \<and>
   bind DIContainer 0 0 (BStr ''InvalidObject'') (constant_factory (VNum 123)) (Some string_schema)
     new_world =
     Some (Inl (InvalidSchemaError (BStr ''InvalidObject'') ''Expected string''), new_world) \<and>
   string_schema (VStr ''John'') = Inr (VStr ''John'') \<and>
   bind DIContainer 0 0 (BStr ''Name'') (constant_factory (VStr ''John'')) (Some string_schema)
     new_world = Some (Inr (), name_world) \<and>
   resolve DIContainer (Suc 0) (cfg name_world) 0 (BStr ''Name'') None (st name_world) =
     Some (Inr (VStr ''John''), st name_world)"
proof -
  let ?s = "st new_world"
  have p1: "constant_factory (VNum 123) 0 (resolve DIContainer 0 (cfg new_world) 0) None ?s =
      Some (Inr (VNum 123), ?s)"
    by (simp add: constant_factory_def)
  have p2: "constant_factory (VStr ''John'') 0 (resolve DIContainer 0 (cfg new_world) 0) None ?s =
      Some (Inr (VStr ''John''), ?s)"
    by (simp add: constant_factory_def)
  have s1: "string_schema (VNum 123) = Inl ''Expected string''"
    and s2: "string_schema (VStr ''John'') = Inr (VStr ''John'')"
    by (simp_all add: string_schema_def)
  have w: "set_binding 0 (BStr ''Name'') (bind_binding (constant_factory (VStr ''John'')))
      (new_world\<lparr>st := ?s\<rparr>) = name_world"
    by (simp add: name_world_def bind_plain_def)
  have h: "getAlias (cfg new_world 0) (BStr ''Name'') = BStr ''Name''"
      "instances (conts ?s 0) (BStr ''Name'') = None"
      "BStr ''Name'' \<notin> set (resolvingStack (conts ?s 0))"
      "constant_factory (VStr ''John'') 0 (resolve DIContainer 0 (cfg name_world) 0) None
        (push 0 (BStr ''Name'') (st name_world)) =
        Some (Inr (VStr ''John''), push 0 (BStr ''Name'') (st name_world))"
    by (simp_all add: new_world_def empty_container_def empty_cstate_def getAlias_def
        constant_factory_def)
  have mw: "middlewares (cfg new_world 0) = []"
    by (simp add: new_world_def empty_container_def)
  from p1 s1 s2 h
    schema_checked_bind [where w = new_world and cid = 0 and I = DIContainer and n = 0
      and x = "BStr ''InvalidObject''" and sch = string_schema and m = "''Expected string''"
      and f = "constant_factory (VNum 123)" and v = "VNum 123" and s' = ?s, OF p1]
    schema_checked_bind [where w = new_world and cid = 0 and I = DIContainer and n = 0 and x = "BStr ''Name''"
      and sch = string_schema and p = "VStr ''John''" and k = 0 and ?v2.0 = "VStr ''John''"
      and ?s3.0 = "push 0 (BStr ''Name'') (st name_world)"
      and f = "constant_factory (VStr ''John'')" and v = "VStr ''John''" and s' = ?s,
      OF p2, unfolded w]
  show ?thesis by (simp add: mw applyMiddleware_Nil pop_push)
qed

section \<open>Disposal\<close>


































end
